theory Spec2Isabelle
  imports Complex_Main "HOL-Library.Word" "HOL-Library.Multiset"
begin

section \<open>Encoder cache (package encoding): hashBlob and Encode\<close>

text \<open>
  Go source: \<^verbatim>\<open>Encoder.Encode\<close> and \<^verbatim>\<open>hashBlob\<close>.
  \<^verbatim>\<open>core.EncodingParams\<close> has two \<^verbatim>\<open>uint\<close> fields, 64-bit words here; the
  conversion \<^verbatim>\<open>byte(x)\<close> keeps the low eight bits, which is \<open>ucast\<close> to an 8-bit word.
\<close>

type_synonym byte = "8 word"

record EncodingParams =
  ChunkLength :: "64 word"
  NumChunks :: "64 word"

datatype enc_error = EncoderUnavailable | EncodeBytesFailed

record ('g, 'f) Chunk =
  Coeffs :: "'f list"
  Proof :: 'g

record 'g BlobCommitments =
  Commitment :: 'g
  LengthProof :: 'g
  Length :: nat

record ('g, 'f) encodedValue =
  commitments :: "'g BlobCommitments"
  chunks :: "('g, 'f) Chunk list"
  err :: "enc_error option"

text \<open>
  The collaborators of \<^verbatim>\<open>Encode\<close> that live outside the file: SHA-256 of the standard
  library, the KZG encoder group (\<^verbatim>\<open>GetKzgEncoder\<close> after \<^verbatim>\<open>toEncParams\<close>, then
  \<^verbatim>\<open>EncodeBytes\<close>, which yields the commitment, the low degree proof and the frames) and
  \<^verbatim>\<open>encoder.ToFrArray\<close>, of which only the length is used.
\<close>

record ('g, 'f, 'e) encoder_env =
  sha256 :: "byte list \<Rightarrow> string"
  GetKzgEncoder :: "64 word \<Rightarrow> 64 word \<Rightarrow> enc_error + 'e"
  EncodeBytes :: "'e \<Rightarrow> byte list \<Rightarrow> enc_error + ('g \<times> 'g \<times> ('g, 'f) Chunk list)"
  ToFrArray_len :: "byte list \<Rightarrow> nat"

text \<open>
  The LRU cache of \<^verbatim>\<open>hashicorp/golang-lru\<close>, capacity 128 as \<^verbatim>\<open>NewEncoder\<close> creates it:
  the most recently used entry first; a hit moves the entry to the front, an insertion
  past the capacity evicts the oldest entry.
\<close>

definition lru_size :: nat where
  "lru_size = 128"

definition lru_get :: "(string \<times> 'v) list \<Rightarrow> string \<Rightarrow> 'v option \<times> (string \<times> 'v) list" where
  "lru_get c k =
     (case map_of c k of
        None \<Rightarrow> (None, c)
      | Some v \<Rightarrow> (Some v, (k, v) # filter (\<lambda>kv. fst kv \<noteq> k) c))"

definition lru_add :: "(string \<times> 'v) list \<Rightarrow> string \<Rightarrow> 'v \<Rightarrow> (string \<times> 'v) list" where
  "lru_add c k v = take lru_size ((k, v) # filter (\<lambda>kv. fst kv \<noteq> k) c)"

record ('g, 'f) Encoder =
  CacheEncodedBlobs :: bool
  Cache :: "(string \<times> ('g, 'f) encodedValue) list"

definition hashBlob :: "('g, 'f, 'e) encoder_env \<Rightarrow> byte list \<Rightarrow> EncodingParams \<Rightarrow> string" where
  "hashBlob env data params =
     sha256 env (data @ [ucast (ChunkLength params), ucast (NumChunks params)])"

text \<open>
  \<^verbatim>\<open>Encode\<close> returns the triple (commitments, chunks, err) of the Go function as a sum,
  together with the encoder after the call (its cache may have changed).
\<close>

definition Encode_uncached ::
  "('g, 'f, 'e) encoder_env \<Rightarrow> ('g, 'f) Encoder \<Rightarrow> string \<Rightarrow> byte list \<Rightarrow> EncodingParams
    \<Rightarrow> (enc_error + 'g BlobCommitments \<times> ('g, 'f) Chunk list) \<times> ('g, 'f) Encoder" where
  "Encode_uncached env e cacheKey data params =
     (case GetKzgEncoder env (NumChunks params) (ChunkLength params) of
        Inl er \<Rightarrow> (Inl er, e)
      | Inr enc \<Rightarrow>
          (case EncodeBytes env enc data of
             Inl er \<Rightarrow> (Inl er, e)
           | Inr (commit, lowDegreeProof, kzgFrames) \<Rightarrow>
               (let chunks = map (\<lambda>frame. \<lparr>Coeffs = Coeffs frame, Proof = Proof frame\<rparr>) kzgFrames;
                    commitments = \<lparr>Commitment = commit, LengthProof = lowDegreeProof,
                                   Length = ToFrArray_len env data\<rparr>;
                    e' = (if CacheEncodedBlobs e
                          then e\<lparr>Cache := lru_add (Cache e) cacheKey
                                  \<lparr>commitments = commitments, chunks = chunks, err = None\<rparr>\<rparr>
                          else e)
                in (Inr (commitments, chunks), e'))))"

definition Encode ::
  "('g, 'f, 'e) encoder_env \<Rightarrow> ('g, 'f) Encoder \<Rightarrow> byte list \<Rightarrow> EncodingParams
    \<Rightarrow> (enc_error + 'g BlobCommitments \<times> ('g, 'f) Chunk list) \<times> ('g, 'f) Encoder" where
  "Encode env e data params =
     (if CacheEncodedBlobs e then
        (let cacheKey = hashBlob env data params in
         case lru_get (Cache e) cacheKey of
           (Some v, c') \<Rightarrow>
             ((case err v of None \<Rightarrow> Inr (commitments v, chunks v) | Some er \<Rightarrow> Inl er),
              e\<lparr>Cache := c'\<rparr>)
         | (None, c') \<Rightarrow> Encode_uncached env (e\<lparr>Cache := c'\<rparr>) cacheKey data params)
      else Encode_uncached env e [] data params)"


section \<open>Batcher (package batcher): data model\<close>

text \<open>
  The types of packages \<^verbatim>\<open>core\<close> and \<^verbatim>\<open>disperser\<close> that the encoding streamer handles.
  Go's \<^verbatim>\<open>uint\<close> is a 64-bit word, \<^verbatim>\<open>core.QuorumID\<close> and the thresholds are bytes.
  A Go map is an association list with distinct keys; the order in which \<^verbatim>\<open>range\<close>
  visits it is chosen by the runtime (see \<open>range_order\<close> below).
\<close>

type_synonym uint = "64 word"
type_synonym BlobKey = string
type_synonym QuorumID = "8 word"
type_synonym OperatorID = nat

record SecurityParam =
  QuorumID :: QuorumID
  AdversaryThreshold :: "8 word"
  QuorumThreshold :: "8 word"
  QuorumRate :: "32 word"

text \<open>\<^verbatim>\<open>core.BlobQuorumInfo\<close> embeds \<^verbatim>\<open>SecurityParam\<close>.\<close>

record BlobQuorumInfo = SecurityParam +
  QuantizationFactor :: uint
  EncodedBlobLength :: uint

record BlobMetadata =
  GetBlobKey :: BlobKey
  BlobSize :: uint
  SecurityParams :: "SecurityParam list"

record Assignment =
  StartIndex :: uint
  asg_NumChunks :: uint

record AssignmentInfo =
  TotalChunks :: uint

record QuorumInfo =
  qi_Assignments :: "(OperatorID \<times> Assignment) list"
  qi_Info :: AssignmentInfo
  qi_QuantizationFactor :: uint

record 's batchMetadata =
  QuorumInfos :: "(QuorumID \<times> QuorumInfo) list"
  State :: 's

text \<open>
  \<^verbatim>\<open>EncodingResult\<close> and \<^verbatim>\<open>EncodingResultOrStatus\<close> (which embeds it and adds \<^verbatim>\<open>Err\<close>).
  \<^verbatim>\<open>Commitment\<close> is a pointer, \<open>None\<close> when nil.
\<close>

datatype batcher_error =
    errNoEncodedResults
  | External string
  | Wrapped string batcher_error
  | Panic string

record ('g, 'f) EncodingResult =
  res_BlobMetadata :: BlobMetadata
  res_ReferenceBlockNumber :: uint
  res_BlobQuorumInfo :: BlobQuorumInfo
  res_Commitment :: "'g BlobCommitments option"
  res_Chunks :: "('g, 'f) Chunk list"
  res_Assignments :: "(OperatorID \<times> Assignment) list"

record ('g, 'f) EncodingResultOrStatus = "('g, 'f) EncodingResult" +
  Err :: "batcher_error option"

record 'g BlobHeader =
  BlobCommitments :: "'g BlobCommitments"
  hdr_QuorumInfos :: "BlobQuorumInfo list"

record ('g, 'f) BlobMessage =
  msg_BlobHeader :: "'g BlobHeader"
  Bundles :: "(QuorumID \<times> ('g, 'f) Chunk list) list"

type_synonym ('g, 'f) EncodedBlob = "(OperatorID \<times> ('g, 'f) BlobMessage) list"

record 'r BatchHeader =
  hdr_ReferenceBlockNumber :: uint
  BatchRoot :: 'r

record ('g, 'f, 's, 'r, 't) batch =
  EncodedBlobs :: "('g, 'f) EncodedBlob list"
  BlobMetadata :: "BlobMetadata list"
  BlobHeaders :: "'g BlobHeader option list"
  BatchHeader :: "'r BatchHeader"
  BatchMetadata :: "'s batchMetadata"
  MerkleTree :: 't

record pendingRequestInfo =
  pend_BlobQuorumInfo :: BlobQuorumInfo
  pend_EncodingParams :: EncodingParams

text \<open>
  A job handed to \<^verbatim>\<open>Pool.Submit\<close>: the variables the closure captures. \<open>job_ctx\<close>
  identifies the cancellable context created for it.
\<close>

record 's encodeJob =
  job_ctx :: nat
  job_metadata :: BlobMetadata
  job_blob :: "byte list option"
  job_res :: pendingRequestInfo
  job_referenceBlockNumber :: uint
  job_batchMetadata :: "'s batchMetadata"

subsection \<open>Iterating over a Go map\<close>

text \<open>
  \<^verbatim>\<open>range\<close> over a map visits every entry once, in an order the Go runtime picks anew
  for each loop. The pick is an argument of the model: \<open>range_order seed xs\<close> draws
  the entries of \<open>xs\<close> one by one, the next one at position \<open>n mod length xs\<close> of what
  is left.
\<close>

fun range_order :: "nat list \<Rightarrow> 'a list \<Rightarrow> 'a list" where
  "range_order seed [] = []"
| "range_order [] xs = xs"
| "range_order (n # seed) xs =
     (let i = n mod length xs
      in xs ! i # range_order seed (take i xs @ drop (Suc i) xs))"

text \<open>Map lookup with the zero value for a missing key, and map assignment.\<close>

definition lookup_or :: "'v \<Rightarrow> ('k \<times> 'v) list \<Rightarrow> 'k \<Rightarrow> 'v" where
  "lookup_or zero m k = (case map_of m k of None \<Rightarrow> zero | Some v \<Rightarrow> v)"

fun assign :: "'k \<Rightarrow> 'v \<Rightarrow> ('k \<times> 'v) list \<Rightarrow> ('k \<times> 'v) list" where
  "assign k v [] = [(k, v)]"
| "assign k v ((k', v') # m) = (if k = k' then (k, v) # m else (k', v') # assign k v m)"

definition zero_QuorumInfo :: QuorumInfo where
  "zero_QuorumInfo = \<lparr>qi_Assignments = [], qi_Info = \<lparr>TotalChunks = 0\<rparr>, qi_QuantizationFactor = 0\<rparr>"


section \<open>EncodedBlobStore and the blob store\<close>

text \<open>
  Modelled from the spec: the file of \<^verbatim>\<open>encodedBlobStore\<close> is not among the sources,
  the streamer only calls it. Section 4.E of the specification: an in-memory index of
  the encode requests in flight, keyed by (blob key, quorum), and of the completed
  results, keyed by (blob key, quorum, reference block).
\<close>

record ('g, 'f) encodedBlobStore =
  requested :: "(BlobKey \<times> QuorumID) set"
  encoded :: "('g, 'f) EncodingResult list"

definition requestKey :: "('g, 'f, 'z) EncodingResult_scheme \<Rightarrow> BlobKey \<times> QuorumID \<times> uint" where
  "requestKey r =
     (GetBlobKey (res_BlobMetadata r), QuorumID (res_BlobQuorumInfo r), res_ReferenceBlockNumber r)"

definition PutEncodingRequest ::
  "('g, 'f) encodedBlobStore \<Rightarrow> BlobKey \<Rightarrow> QuorumID \<Rightarrow> ('g, 'f) encodedBlobStore" where
  "PutEncodingRequest st blobKey quorumID = st\<lparr>requested := insert (blobKey, quorumID) (requested st)\<rparr>"

definition DeleteEncodingRequest ::
  "('g, 'f) encodedBlobStore \<Rightarrow> BlobKey \<Rightarrow> QuorumID \<Rightarrow> ('g, 'f) encodedBlobStore" where
  "DeleteEncodingRequest st blobKey quorumID = st\<lparr>requested := requested st - {(blobKey, quorumID)}\<rparr>"

definition HasEncodingRequested ::
  "('g, 'f) encodedBlobStore \<Rightarrow> BlobKey \<Rightarrow> QuorumID \<Rightarrow> uint \<Rightarrow> bool" where
  "HasEncodingRequested st blobKey quorumID referenceBlockNumber =
     ((blobKey, quorumID) \<in> requested st \<or>
      (blobKey, quorumID, referenceBlockNumber) \<in> set (map requestKey (encoded st)))"

text \<open>Idempotent on (blob key, quorum, reference block): a result already stored is replaced.\<close>

definition PutEncodingResult ::
  "('g, 'f) encodedBlobStore \<Rightarrow> ('g, 'f) EncodingResult
    \<Rightarrow> batcher_error + ('g, 'f) encodedBlobStore" where
  "PutEncodingResult st result =
     Inr (st\<lparr>encoded := filter (\<lambda>r. requestKey r \<noteq> requestKey result) (encoded st) @ [result]\<rparr>)"

text \<open>The cumulative size of the stored results; the size of one chunk is a parameter.\<close>

definition GetEncodedResultSize ::
  "(('g, 'f) Chunk \<Rightarrow> nat) \<Rightarrow> ('g, 'f) encodedBlobStore \<Rightarrow> uint" where
  "GetEncodedResultSize chunkSize st =
     of_nat (sum_list (map (\<lambda>r. sum_list (map chunkSize (res_Chunks r))) (encoded st)))"

definition GetNewAndDeleteStaleEncodingResults ::
  "('g, 'f) encodedBlobStore \<Rightarrow> uint \<Rightarrow> ('g, 'f) EncodingResult list \<times> ('g, 'f) encodedBlobStore" where
  "GetNewAndDeleteStaleEncodingResults st blockNumber =
     (let fetched = filter (\<lambda>r. res_ReferenceBlockNumber r = blockNumber) (encoded st)
      in (fetched, st\<lparr>encoded := fetched\<rparr>))"

text \<open>
  Modelled from the spec: the blob store is an interface the streamer consumes
  (section 6). It holds every blob with its metadata and status;
  \<^verbatim>\<open>GetBlobMetadataByStatus\<close> lists the metadata of one status, \<^verbatim>\<open>GetBlobsByMetadata\<close>
  maps blob keys to blob data and \<^verbatim>\<open>MarkBlobFailed\<close> sets the status of a key to failed.
\<close>

datatype BlobStatus = Processing | Confirmed | Failed | Finalized | InsufficientSignatures

record storedBlob =
  sb_metadata :: BlobMetadata
  sb_status :: BlobStatus
  sb_data :: "byte list"

definition GetBlobMetadataByStatus :: "storedBlob list \<Rightarrow> BlobStatus \<Rightarrow> BlobMetadata list" where
  "GetBlobMetadataByStatus bs status = map sb_metadata (filter (\<lambda>b. sb_status b = status) bs)"

definition GetBlobsByMetadata :: "storedBlob list \<Rightarrow> BlobMetadata list \<Rightarrow> (BlobKey \<times> byte list) list" where
  "GetBlobsByMetadata bs metadatas =
     map (\<lambda>b. (GetBlobKey (sb_metadata b), sb_data b))
       (filter (\<lambda>b. GetBlobKey (sb_metadata b) \<in> set (map GetBlobKey metadatas)) bs)"

definition MarkBlobFailed :: "storedBlob list \<Rightarrow> BlobKey \<Rightarrow> storedBlob list" where
  "MarkBlobFailed bs blobKey =
     map (\<lambda>b. if GetBlobKey (sb_metadata b) = blobKey then b\<lparr>sb_status := Failed\<rparr> else b) bs"

section \<open>EncodingStreamer: state and collaborators\<close>

record EncodedSizeNotifier =
  Notify :: nat
  threshold :: uint
  active :: bool

text \<open>
  The streamer. \<open>Notify\<close> counts the signals sent on the notifier's channel, \<open>Pool\<close>
  lists the jobs submitted to the worker pool, \<open>encodingCtxCancelFuncs\<close> the contexts
  whose cancel function is held and \<open>cancelled\<close> the contexts cancelled so far.
\<close>

record ('g, 'f, 's) EncodingStreamer =
  SRSOrder :: int
  EncodingQueueLimit :: int
  EncodedBlobstore :: "('g, 'f) encodedBlobStore"
  ReferenceBlockNumber :: uint
  Pool :: "'s encodeJob list"
  EncodedSizeNotifier :: EncodedSizeNotifier
  blobStore :: "storedBlob list"
  encodingCtxCancelFuncs :: "nat list"
  cancelled :: "nat list"

text \<open>
  What the streamer calls and the sources do not contain: the chain state, the assignment
  coordinator, the helpers of package \<^verbatim>\<open>core\<close>, the encoder client, the Merkle tree of
  \<^verbatim>\<open>SetBatchRoot\<close>, the constant \<^verbatim>\<open>QuantizationFactor\<close>, the size of the pool's waiting
  queue, transient faults of the blob store, and the size of a chunk.
\<close>

record ('g, 'f, 's, 'r, 't) streamer_env =
  GetCurrentBlockNumber :: "batcher_error + uint"
  GetIndexedOperatorState :: "uint \<Rightarrow> QuorumID list \<Rightarrow> batcher_error + 's"
  GetAssignments :: "'s \<Rightarrow> QuorumID \<Rightarrow> uint
    \<Rightarrow> batcher_error + (OperatorID \<times> Assignment) list \<times> AssignmentInfo"
  GetMinimumChunkLength :: "uint \<Rightarrow> uint \<Rightarrow> uint \<Rightarrow> 8 word \<Rightarrow> 8 word \<Rightarrow> batcher_error + uint"
  GetBlobLength :: "uint \<Rightarrow> uint"
  GetEncodingParams :: "uint \<Rightarrow> uint \<Rightarrow> batcher_error + EncodingParams"
  ValidateEncodingParams :: "EncodingParams \<Rightarrow> int \<Rightarrow> int \<Rightarrow> batcher_error option"
  EncodeBlob :: "byte list \<Rightarrow> EncodingParams
    \<Rightarrow> batcher_error + 'g BlobCommitments \<times> ('g, 'f) Chunk list"
  SetBatchRoot :: "'g BlobHeader option list \<Rightarrow> batcher_error + 'r \<times> 't"
  QuantizationFactor_const :: uint
  WaitingQueueSize :: int
  GetBlobMetadataByStatus_fault :: "batcher_error option"
  GetBlobsByMetadata_fault :: "batcher_error option"
  chunkSize :: "('g, 'f) Chunk \<Rightarrow> nat"


section \<open>EncodingStreamer: requesting encodings\<close>

text \<open>\<^verbatim>\<open>dedupRequests\<close>: the inner loop leaves at the first quorum without a request.\<close>

fun allQuorumsRequested ::
  "('g, 'f) encodedBlobStore \<Rightarrow> BlobKey \<Rightarrow> uint \<Rightarrow> SecurityParam list \<Rightarrow> bool" where
  "allQuorumsRequested st blobKey referenceBlockNumber [] = True"
| "allQuorumsRequested st blobKey referenceBlockNumber (quorum # rest) =
     (if \<not> HasEncodingRequested st blobKey (QuorumID quorum) referenceBlockNumber then False
      else allQuorumsRequested st blobKey referenceBlockNumber rest)"

definition dedupRequests ::
  "('g, 'f, 's) EncodingStreamer \<Rightarrow> BlobMetadata list \<Rightarrow> uint \<Rightarrow> BlobMetadata list" where
  "dedupRequests e metadatas referenceBlockNumber =
     filter (\<lambda>meta. \<not> allQuorumsRequested (EncodedBlobstore e) (GetBlobKey meta)
                        referenceBlockNumber (SecurityParams meta)) metadatas"

text \<open>
  \<^verbatim>\<open>getBatchMetadata\<close>. Both loops over the map \<^verbatim>\<open>quorums\<close> take their order from the
  runtime (\<open>ord1\<close>, \<open>ord2\<close>); the second one returns at the first failing quorum.
\<close>

definition collect_quorums :: "BlobMetadata list \<Rightarrow> (QuorumID \<times> QuorumInfo) list" where
  "collect_quorums metadatas =
     foldl (\<lambda>quorums metadata.
              foldl (\<lambda>qs quorum. assign (QuorumID quorum) zero_QuorumInfo qs)
                quorums (SecurityParams metadata))
       [] metadatas"

fun fill_assignments ::
  "('g, 'f, 's, 'r, 't) streamer_env \<Rightarrow> 's \<Rightarrow> QuorumID list \<Rightarrow> (QuorumID \<times> QuorumInfo) list
    \<Rightarrow> batcher_error + (QuorumID \<times> QuorumInfo) list" where
  "fill_assignments env state [] quorums = Inr quorums"
| "fill_assignments env state (quorumID # rest) quorums =
     (case GetAssignments env state quorumID (QuantizationFactor_const env) of
        Inl er \<Rightarrow> Inl er
      | Inr (assignments, info) \<Rightarrow>
          fill_assignments env state rest
            (assign quorumID \<lparr>qi_Assignments = assignments, qi_Info = info,
                              qi_QuantizationFactor = QuantizationFactor_const env\<rparr> quorums))"

definition getBatchMetadata ::
  "('g, 'f, 's, 'r, 't) streamer_env \<Rightarrow> nat list \<Rightarrow> nat list \<Rightarrow> BlobMetadata list \<Rightarrow> uint
    \<Rightarrow> batcher_error + 's batchMetadata" where
  "getBatchMetadata env ord1 ord2 metadatas blockNumber =
     (let quorums = collect_quorums metadatas;
          quorumIds = map fst (range_order ord1 quorums)
      in case GetIndexedOperatorState env blockNumber quorumIds of
           Inl er \<Rightarrow> Inl (Wrapped ''error getting operator state at block number'' er)
         | Inr state \<Rightarrow>
             (case fill_assignments env state (map fst (range_order ord2 quorums)) quorums of
                Inl er \<Rightarrow> Inl er
              | Inr quorums' \<Rightarrow> Inr \<lparr>QuorumInfos = quorums', State = state\<rparr>))"

text \<open>
  \<^verbatim>\<open>RequestEncodingForBlob\<close>, first loop. \<open>check_quorum\<close> is the body of the loop for
  one quorum of the blob, up to the point where it leaves the round: by \<^verbatim>\<open>continue\<close>
  (the quorum was requested already, \<^verbatim>\<open>GetMinimumChunkLength\<close> failed or
  \<^verbatim>\<open>GetEncodingParams\<close> failed), by \<^verbatim>\<open>return\<close> after \<^verbatim>\<open>MarkBlobFailed\<close>
  (\<^verbatim>\<open>ValidateEncodingParams\<close> failed), or by appending to \<^verbatim>\<open>pending\<close>.
\<close>

datatype quorum_outcome =
    AlreadyRequested
  | ChunkLengthFailed batcher_error
  | EncodingParamsFailed batcher_error
  | ValidationFailed batcher_error
  | Accepted pendingRequestInfo

definition check_quorum ::
  "('g, 'f, 's, 'r, 't) streamer_env \<Rightarrow> ('g, 'f, 's) EncodingStreamer \<Rightarrow> BlobMetadata
    \<Rightarrow> 's batchMetadata \<Rightarrow> uint \<Rightarrow> SecurityParam \<Rightarrow> quorum_outcome" where
  "check_quorum env e metadata batchMetadata referenceBlockNumber quorum =
     (if HasEncodingRequested (EncodedBlobstore e) (GetBlobKey metadata) (QuorumID quorum)
           referenceBlockNumber
      then AlreadyRequested
      else
        let quorumInfo = lookup_or zero_QuorumInfo (QuorumInfos batchMetadata) (QuorumID quorum);
            blobLength = GetBlobLength env (BlobSize metadata);
            numOperators = (of_nat (length (qi_Assignments quorumInfo)) :: uint)
        in case GetMinimumChunkLength env numOperators blobLength (qi_QuantizationFactor quorumInfo)
                  (QuorumThreshold quorum) (AdversaryThreshold quorum) of
             Inl er \<Rightarrow> ChunkLengthFailed er
           | Inr chunkLength \<Rightarrow>
               (case GetEncodingParams env chunkLength (TotalChunks (qi_Info quorumInfo)) of
                  Inl er \<Rightarrow> EncodingParamsFailed er
                | Inr params \<Rightarrow>
                    (case ValidateEncodingParams env params (sint blobLength) (SRSOrder e) of
                       Some er \<Rightarrow> ValidationFailed er
                     | None \<Rightarrow>
                         Accepted
                           \<lparr>pend_BlobQuorumInfo =
                              \<lparr>QuorumID = QuorumID quorum,
                               AdversaryThreshold = AdversaryThreshold quorum,
                               QuorumThreshold = QuorumThreshold quorum,
                               QuorumRate = QuorumRate quorum,
                               QuantizationFactor = qi_QuantizationFactor quorumInfo,
                               EncodedBlobLength =
                                 ChunkLength params * qi_QuantizationFactor quorumInfo * numOperators\<rparr>,
                            pend_EncodingParams = params\<rparr>)))"

text \<open>The loop itself: \<open>None\<close> is the \<^verbatim>\<open>return\<close> that follows \<^verbatim>\<open>MarkBlobFailed\<close>.\<close>

fun validate_quorums ::
  "('g, 'f, 's, 'r, 't) streamer_env \<Rightarrow> ('g, 'f, 's) EncodingStreamer \<Rightarrow> BlobMetadata
    \<Rightarrow> 's batchMetadata \<Rightarrow> uint \<Rightarrow> SecurityParam list \<Rightarrow> pendingRequestInfo list
    \<Rightarrow> pendingRequestInfo list option" where
  "validate_quorums env e metadata batchMetadata referenceBlockNumber [] pending = Some pending"
| "validate_quorums env e metadata batchMetadata referenceBlockNumber (quorum # rest) pending =
     (case check_quorum env e metadata batchMetadata referenceBlockNumber quorum of
        AlreadyRequested \<Rightarrow>
          validate_quorums env e metadata batchMetadata referenceBlockNumber rest pending
      | ChunkLengthFailed er \<Rightarrow>
          validate_quorums env e metadata batchMetadata referenceBlockNumber rest pending
      | EncodingParamsFailed er \<Rightarrow>
          validate_quorums env e metadata batchMetadata referenceBlockNumber rest pending
      | ValidationFailed er \<Rightarrow> None
      | Accepted res \<Rightarrow>
          validate_quorums env e metadata batchMetadata referenceBlockNumber rest (pending @ [res]))"

text \<open>The requests of a blob that the first loop accepts.\<close>

definition accepted_requests ::
  "('g, 'f, 's, 'r, 't) streamer_env \<Rightarrow> ('g, 'f, 's) EncodingStreamer \<Rightarrow> BlobMetadata
    \<Rightarrow> 's batchMetadata \<Rightarrow> uint \<Rightarrow> SecurityParam list \<Rightarrow> pendingRequestInfo list" where
  "accepted_requests env e metadata batchMetadata referenceBlockNumber quorums =
     List.map_filter
       (\<lambda>quorum. case check_quorum env e metadata batchMetadata referenceBlockNumber quorum of
                   Accepted res \<Rightarrow> Some res | _ \<Rightarrow> None)
       quorums"

definition validation_fails ::
  "('g, 'f, 's, 'r, 't) streamer_env \<Rightarrow> ('g, 'f, 's) EncodingStreamer \<Rightarrow> BlobMetadata
    \<Rightarrow> 's batchMetadata \<Rightarrow> uint \<Rightarrow> SecurityParam \<Rightarrow> bool" where
  "validation_fails env e metadata batchMetadata referenceBlockNumber quorum =
     (case check_quorum env e metadata batchMetadata referenceBlockNumber quorum of
        ValidationFailed er \<Rightarrow> True | _ \<Rightarrow> False)"


text \<open>
  Second loop, one round: the context's cancel function is recorded, the job is
  submitted to the pool, then the request is registered in the store.
\<close>

definition register_cancel :: "('g, 'f, 's) EncodingStreamer \<Rightarrow> nat \<times> ('g, 'f, 's) EncodingStreamer" where
  "register_cancel e =
     (let ctx = length (Pool e)
      in (ctx, e\<lparr>encodingCtxCancelFuncs := encodingCtxCancelFuncs e @ [ctx]\<rparr>))"

definition pool_submit ::
  "'s encodeJob \<Rightarrow> ('g, 'f, 's) EncodingStreamer \<Rightarrow> ('g, 'f, 's) EncodingStreamer" where
  "pool_submit job e = e\<lparr>Pool := Pool e @ [job]\<rparr>"

definition put_request ::
  "BlobKey \<Rightarrow> pendingRequestInfo \<Rightarrow> ('g, 'f, 's) EncodingStreamer \<Rightarrow> ('g, 'f, 's) EncodingStreamer" where
  "put_request blobKey res e =
     e\<lparr>EncodedBlobstore :=
         PutEncodingRequest (EncodedBlobstore e) blobKey (QuorumID (pend_BlobQuorumInfo res))\<rparr>"

definition make_job ::
  "nat \<Rightarrow> BlobMetadata \<Rightarrow> byte list option \<Rightarrow> 's batchMetadata \<Rightarrow> uint \<Rightarrow> pendingRequestInfo
    \<Rightarrow> 's encodeJob" where
  "make_job ctx metadata blob batchMetadata referenceBlockNumber res =
     \<lparr>job_ctx = ctx, job_metadata = metadata, job_blob = blob, job_res = res,
      job_referenceBlockNumber = referenceBlockNumber, job_batchMetadata = batchMetadata\<rparr>"

definition submit_request ::
  "BlobMetadata \<Rightarrow> byte list option \<Rightarrow> 's batchMetadata \<Rightarrow> uint
    \<Rightarrow> ('g, 'f, 's) EncodingStreamer \<Rightarrow> pendingRequestInfo \<Rightarrow> ('g, 'f, 's) EncodingStreamer" where
  "submit_request metadata blob batchMetadata referenceBlockNumber e res =
     (let (ctx, e1) = register_cancel e;
          e2 = pool_submit (make_job ctx metadata blob batchMetadata referenceBlockNumber res) e1
      in put_request (GetBlobKey metadata) res e2)"

definition RequestEncodingForBlob ::
  "('g, 'f, 's, 'r, 't) streamer_env \<Rightarrow> ('g, 'f, 's) EncodingStreamer \<Rightarrow> BlobMetadata
    \<Rightarrow> byte list option \<Rightarrow> 's batchMetadata \<Rightarrow> uint \<Rightarrow> ('g, 'f, 's) EncodingStreamer" where
  "RequestEncodingForBlob env e metadata blob batchMetadata referenceBlockNumber =
     (case validate_quorums env e metadata batchMetadata referenceBlockNumber
             (SecurityParams metadata) [] of
        None \<Rightarrow> e\<lparr>blobStore := MarkBlobFailed (blobStore e) (GetBlobKey metadata)\<rparr>
      | Some pending \<Rightarrow>
          foldl (submit_request metadata blob batchMetadata referenceBlockNumber) e pending)"

text \<open>
  \<^verbatim>\<open>RequestEncoding\<close>, one tick of the requester, in the order of the source: the
  reference block number is read and, when it is 0, replaced by the current block
  number; the metadata are deduplicated and cut to what the queue of the pool takes;
  the batch metadata and the blobs are fetched; every blob is handed to
  \<^verbatim>\<open>RequestEncodingForBlob\<close>. The result is the error returned (\<open>None\<close> for nil) and the
  streamer after the tick.
\<close>

definition acquire_reference_block ::
  "('g, 'f, 's, 'r, 't) streamer_env \<Rightarrow> ('g, 'f, 's) EncodingStreamer
    \<Rightarrow> batcher_error + uint \<times> ('g, 'f, 's) EncodingStreamer" where
  "acquire_reference_block env e =
     (if ReferenceBlockNumber e = 0
      then (case GetCurrentBlockNumber env of
              Inl er \<Rightarrow> Inl (Wrapped ''failed to get current block number'' er)
            | Inr blockNumber \<Rightarrow> Inr (blockNumber, e\<lparr>ReferenceBlockNumber := blockNumber\<rparr>))
      else Inr (ReferenceBlockNumber e, e))"

definition request_blobs ::
  "('g, 'f, 's, 'r, 't) streamer_env \<Rightarrow> ('g, 'f, 's) EncodingStreamer \<Rightarrow> BlobMetadata list
    \<Rightarrow> (BlobKey \<times> byte list) list \<Rightarrow> 's batchMetadata \<Rightarrow> uint \<Rightarrow> ('g, 'f, 's) EncodingStreamer" where
  "request_blobs env e metadatas blobs batchMetadata referenceBlockNumber =
     foldl (\<lambda>e' metadata.
              RequestEncodingForBlob env e' metadata (map_of blobs (GetBlobKey metadata))
                batchMetadata referenceBlockNumber)
       e metadatas"

definition request_batch ::
  "('g, 'f, 's, 'r, 't) streamer_env \<Rightarrow> nat list \<Rightarrow> nat list \<Rightarrow> ('g, 'f, 's) EncodingStreamer
    \<Rightarrow> uint \<Rightarrow> BlobMetadata list \<Rightarrow> batcher_error option \<times> ('g, 'f, 's) EncodingStreamer" where
  "request_batch env ord1 ord2 e referenceBlockNumber metadatas =
     (case getBatchMetadata env ord1 ord2 metadatas referenceBlockNumber of
        Inl er \<Rightarrow> (Some (Wrapped ''error getting quorum infos'' er), e)
      | Inr batchMetadata \<Rightarrow>
          (case GetBlobsByMetadata_fault env of
             Some er \<Rightarrow> (Some (Wrapped ''error getting blobs from blob store'' er), e)
           | None \<Rightarrow>
               (None,
                request_blobs env e metadatas (GetBlobsByMetadata (blobStore e) metadatas)
                  batchMetadata referenceBlockNumber)))"

definition request_deduped ::
  "('g, 'f, 's, 'r, 't) streamer_env \<Rightarrow> nat list \<Rightarrow> nat list \<Rightarrow> ('g, 'f, 's) EncodingStreamer
    \<Rightarrow> uint \<Rightarrow> BlobMetadata list \<Rightarrow> batcher_error option \<times> ('g, 'f, 's) EncodingStreamer" where
  "request_deduped env ord1 ord2 e referenceBlockNumber metadatas =
     (if metadatas = [] then (None, e)
      else
        let numMetadatastoProcess =
              min (EncodingQueueLimit e - WaitingQueueSize env) (int (length metadatas))
        in if numMetadatastoProcess \<le> 0 then (None, e)
           else request_batch env ord1 ord2 e referenceBlockNumber
                  (take (nat numMetadatastoProcess) metadatas))"

definition RequestEncoding ::
  "('g, 'f, 's, 'r, 't) streamer_env \<Rightarrow> nat list \<Rightarrow> nat list \<Rightarrow> ('g, 'f, 's) EncodingStreamer
    \<Rightarrow> batcher_error option \<times> ('g, 'f, 's) EncodingStreamer" where
  "RequestEncoding env ord1 ord2 e =
     (case GetBlobMetadataByStatus_fault env of
        Some er \<Rightarrow> (Some (Wrapped ''error getting blob metadatas'' er), e)
      | None \<Rightarrow>
          (let metadatas = GetBlobMetadataByStatus (blobStore e) Processing
           in if metadatas = [] then (None, e)
              else
                case acquire_reference_block env e of
                  Inl er \<Rightarrow> (Some er, e)
                | Inr (referenceBlockNumber, e1) \<Rightarrow>
                    request_deduped env ord1 ord2 e1 referenceBlockNumber
                      (dedupRequests e1 metadatas referenceBlockNumber)))"

section \<open>EncodingStreamer: encode jobs and their results\<close>

text \<open>
  The closure submitted to the pool: it calls the encoder client and builds the value it
  sends on \<^verbatim>\<open>encoderChan\<close>. A nil blob makes \<^verbatim>\<open>blob.Data\<close> panic inside the worker
  (\<open>None\<close>: nothing is sent).
\<close>

definition run_job ::
  "('g, 'f, 's, 'r, 't) streamer_env \<Rightarrow> 's encodeJob \<Rightarrow> ('g, 'f) EncodingResultOrStatus option" where
  "run_job env job =
     (case job_blob job of
        None \<Rightarrow> None
      | Some data \<Rightarrow>
          (case EncodeBlob env data (pend_EncodingParams (job_res job)) of
             Inl er \<Rightarrow>
               Some \<lparr>res_BlobMetadata = job_metadata job, res_ReferenceBlockNumber = 0,
                     res_BlobQuorumInfo = pend_BlobQuorumInfo (job_res job),
                     res_Commitment = None, res_Chunks = [], res_Assignments = [],
                     Err = Some er\<rparr>
           | Inr (commits, chunks') \<Rightarrow>
               Some \<lparr>res_BlobMetadata = job_metadata job,
                     res_ReferenceBlockNumber = job_referenceBlockNumber job,
                     res_BlobQuorumInfo = pend_BlobQuorumInfo (job_res job),
                     res_Commitment = Some commits, res_Chunks = chunks',
                     res_Assignments =
                       qi_Assignments
                         (lookup_or zero_QuorumInfo (QuorumInfos (job_batchMetadata job))
                            (QuorumID (pend_BlobQuorumInfo (job_res job)))),
                     Err = None\<rparr>))"

definition notify_if_active :: "EncodedSizeNotifier \<Rightarrow> EncodedSizeNotifier" where
  "notify_if_active n = (if active n then n\<lparr>Notify := Suc (Notify n), active := False\<rparr> else n)"

definition ProcessEncodedBlobs ::
  "('g, 'f, 's, 'r, 't) streamer_env \<Rightarrow> ('g, 'f, 's) EncodingStreamer
    \<Rightarrow> ('g, 'f) EncodingResultOrStatus \<Rightarrow> batcher_error option \<times> ('g, 'f, 's) EncodingStreamer" where
  "ProcessEncodedBlobs env e result =
     (case Err result of
        Some er \<Rightarrow>
          (Some (Wrapped ''error encoding blob'' er),
           e\<lparr>EncodedBlobstore :=
               DeleteEncodingRequest (EncodedBlobstore e) (GetBlobKey (res_BlobMetadata result))
                 (QuorumID (res_BlobQuorumInfo result))\<rparr>)
      | None \<Rightarrow>
          (case PutEncodingResult (EncodedBlobstore e) (EncodingResult.truncate result) of
             Inl er \<Rightarrow> (Some (Wrapped ''failed to putEncodedBlob'' er), e)
           | Inr st \<Rightarrow>
               (let e1 = e\<lparr>EncodedBlobstore := st\<rparr>;
                    encodedSize = GetEncodedResultSize (chunkSize env) st;
                    n = EncodedSizeNotifier e1
                in if threshold n > 0 \<and> encodedSize \<ge> threshold n
                   then (None, e1\<lparr>EncodedSizeNotifier := notify_if_active n\<rparr>)
                   else (None, e1))))"

section \<open>EncodingStreamer: creating a batch\<close>

text \<open>
  The Go slice expression \<^verbatim>\<open>xs[lo:hi]\<close> panics unless \<open>lo \<le> hi \<le> cap xs\<close>; the capacity
  is taken to be the length. \<open>hi\<close> is computed on \<^verbatim>\<open>uint\<close> and may have wrapped.
\<close>

definition slice :: "'a list \<Rightarrow> uint \<Rightarrow> uint \<Rightarrow> 'a list option" where
  "slice xs lo hi =
     (if unat lo \<le> unat hi \<and> unat hi \<le> length xs
      then Some (take (unat hi - unat lo) (drop (unat lo) xs)) else None)"

text \<open>
  The loop over \<^verbatim>\<open>result.Assignments\<close>: \<open>eb\<close> is \<^verbatim>\<open>encodedBlobByKey[blobKey]\<close>, \<open>hdr\<close> is
  \<^verbatim>\<open>blobHeaderByKey[blobKey]\<close>. Every round touches the message of its own operator only,
  and every header created for one result carries the same commitments, so the values
  do not depend on the order in which the runtime visits the operators.
\<close>

fun populate_bundles ::
  "('g, 'f) EncodingResult \<Rightarrow> (OperatorID \<times> Assignment) list
    \<Rightarrow> ('g, 'f) EncodedBlob \<times> 'g BlobHeader option
    \<Rightarrow> batcher_error + ('g, 'f) EncodedBlob \<times> 'g BlobHeader option" where
  "populate_bundles result [] (eb, hdr) = Inr (eb, hdr)"
| "populate_bundles result ((opID, assignment) # rest) (eb, hdr) =
     (case (case map_of eb opID of
              Some m \<Rightarrow> Inr (m, hdr)
            | None \<Rightarrow>
                (case res_Commitment result of
                   None \<Rightarrow> Inl (Panic ''nil pointer dereference'')
                 | Some c \<Rightarrow>
                     (let blobHeader = \<lparr>BlobCommitments = c, hdr_QuorumInfos = []\<rparr>
                      in Inr (\<lparr>msg_BlobHeader = blobHeader, Bundles = []\<rparr>, Some blobHeader)))) of
        Inl er \<Rightarrow> Inl er
      | Inr (blobMessage, hdr') \<Rightarrow>
          (case slice (res_Chunks result) (StartIndex assignment)
                  (StartIndex assignment + asg_NumChunks assignment) of
             None \<Rightarrow> Inl (Panic ''slice bounds out of range'')
           | Some cs \<Rightarrow>
               (let q = QuorumID (res_BlobQuorumInfo result);
                    blobMessage' =
                      blobMessage\<lparr>Bundles :=
                        assign q (lookup_or [] (Bundles blobMessage) q @ cs) (Bundles blobMessage)\<rparr>
                in populate_bundles result rest (assign opID blobMessage' eb, hdr'))))"

text \<open>The four maps that \<^verbatim>\<open>CreateBatch\<close> builds from the encoded results.\<close>

record ('g, 'f) batch_tables =
  encodedBlobByKey :: "(BlobKey \<times> ('g, 'f) EncodedBlob) list"
  blobQuorums :: "(BlobKey \<times> BlobQuorumInfo list) list"
  blobHeaderByKey :: "(BlobKey \<times> 'g BlobHeader) list"
  metadataByKey :: "(BlobKey \<times> BlobMetadata) list"

definition empty_tables :: "('g, 'f) batch_tables" where
  "empty_tables = \<lparr>encodedBlobByKey = [], blobQuorums = [], blobHeaderByKey = [], metadataByKey = []\<rparr>"

text \<open>
  One round of the loop over the encoded results: \<open>init_blob\<close> is the block that runs
  when the blob key is new, \<open>store_result\<close> writes back what the loop over the
  assignments produced and appends the result's quorum info.
\<close>

definition init_blob :: "('g, 'f) EncodingResult \<Rightarrow> ('g, 'f) batch_tables \<Rightarrow> ('g, 'f) batch_tables" where
  "init_blob result t =
     (let blobKey = GetBlobKey (res_BlobMetadata result)
      in if map_of (encodedBlobByKey t) blobKey = None
         then t\<lparr>metadataByKey := assign blobKey (res_BlobMetadata result) (metadataByKey t),
                blobQuorums := assign blobKey [] (blobQuorums t),
                encodedBlobByKey := assign blobKey [] (encodedBlobByKey t)\<rparr>
         else t)"

definition store_result ::
  "('g, 'f) EncodingResult \<Rightarrow> ('g, 'f) EncodedBlob \<Rightarrow> 'g BlobHeader option
    \<Rightarrow> ('g, 'f) batch_tables \<Rightarrow> ('g, 'f) batch_tables" where
  "store_result result eb hdr t =
     (let blobKey = GetBlobKey (res_BlobMetadata result)
      in t\<lparr>encodedBlobByKey := assign blobKey eb (encodedBlobByKey t),
            blobHeaderByKey :=
              (case hdr of None \<Rightarrow> blobHeaderByKey t
               | Some h \<Rightarrow> assign blobKey h (blobHeaderByKey t)),
            blobQuorums :=
              assign blobKey (lookup_or [] (blobQuorums t) blobKey @ [res_BlobQuorumInfo result])
                (blobQuorums t)\<rparr>)"

fun group_results ::
  "('g, 'f) EncodingResult list \<Rightarrow> ('g, 'f) batch_tables \<Rightarrow> batcher_error + ('g, 'f) batch_tables" where
  "group_results [] t = Inr t"
| "group_results (result # rest) t =
     (let blobKey = GetBlobKey (res_BlobMetadata result);
          t1 = init_blob result t
      in case populate_bundles result (res_Assignments result)
                (lookup_or [] (encodedBlobByKey t1) blobKey, map_of (blobHeaderByKey t1) blobKey) of
           Inl er \<Rightarrow> Inl er
         | Inr (eb, hdr) \<Rightarrow> group_results rest (store_result result eb hdr t1))"

text \<open>
  ``Populate the blob quorum infos'': every message's header gets the quorum infos of its
  blob. The header kept in \<^verbatim>\<open>blobHeaderByKey\<close> is the header of one of these messages
  (the same pointer), so it gets them too.
\<close>

definition populate_quorum_infos :: "('g, 'f) batch_tables \<Rightarrow> ('g, 'f) batch_tables" where
  "populate_quorum_infos t =
     t\<lparr>encodedBlobByKey :=
         map (\<lambda>(blobKey, encodedBlob).
                (blobKey,
                 map (\<lambda>(opID, blobMessage).
                        (opID, blobMessage\<lparr>msg_BlobHeader :=
                           (msg_BlobHeader blobMessage)\<lparr>hdr_QuorumInfos :=
                              lookup_or [] (blobQuorums t) blobKey\<rparr>\<rparr>))
                   encodedBlob))
           (encodedBlobByKey t),
       blobHeaderByKey :=
         map (\<lambda>(blobKey, h). (blobKey, h\<lparr>hdr_QuorumInfos := lookup_or [] (blobQuorums t) blobKey\<rparr>))
           (blobHeaderByKey t)\<rparr>"

text \<open>
  The loop that deletes from \<^verbatim>\<open>metadataByKey\<close> every blob that lacks a requested quorum.
  It deletes the entry it is visiting and no other, so the outcome is the same for
  every visiting order: the entries that pass \<open>quorums_complete\<close>.
\<close>

fun quorums_complete :: "QuorumID list \<Rightarrow> SecurityParam list \<Rightarrow> bool" where
  "quorums_complete quorumPresent [] = True"
| "quorums_complete quorumPresent (quorum # rest) =
     (if QuorumID quorum \<notin> set quorumPresent then False else quorums_complete quorumPresent rest)"

definition drop_incomplete :: "('g, 'f) batch_tables \<Rightarrow> ('g, 'f) batch_tables" where
  "drop_incomplete t =
     t\<lparr>metadataByKey :=
         filter (\<lambda>(blobKey, metadata).
                   quorums_complete (map QuorumID (lookup_or [] (blobQuorums t) blobKey))
                     (SecurityParams metadata))
           (metadataByKey t)\<rparr>"

text \<open>
  The maps of \<^verbatim>\<open>CreateBatch\<close> once the three loops have run, and the loop that turns
  them into slices: \<open>ord\<close> is the order in which the runtime visits \<^verbatim>\<open>metadataByKey\<close>,
  and entry \<open>i\<close> of each slice is read with the key visited in round \<open>i\<close>.
\<close>

definition build_tables ::
  "('g, 'f) EncodingResult list \<Rightarrow> batcher_error + ('g, 'f) batch_tables" where
  "build_tables encodedResults =
     (case group_results encodedResults empty_tables of
        Inl er \<Rightarrow> Inl er
      | Inr t \<Rightarrow> Inr (drop_incomplete (populate_quorum_infos t)))"

definition materialize ::
  "nat list \<Rightarrow> ('g, 'f) batch_tables
    \<Rightarrow> ('g, 'f) EncodedBlob list \<times> 'g BlobHeader option list \<times> BlobMetadata list" where
  "materialize ord t =
     (let entries = range_order ord (metadataByKey t)
      in (map (\<lambda>(key, m). lookup_or [] (encodedBlobByKey t) key) entries,
          map (\<lambda>(key, m). map_of (blobHeaderByKey t) key) entries,
          map (\<lambda>(key, m). m) entries))"

definition cancel_outstanding :: "('g, 'f, 's) EncodingStreamer \<Rightarrow> ('g, 'f, 's) EncodingStreamer" where
  "cancel_outstanding e =
     (if length (encodingCtxCancelFuncs e) > 0
      then e\<lparr>cancelled := cancelled e @ encodingCtxCancelFuncs e, encodingCtxCancelFuncs := []\<rparr>
      else e)"

text \<open>The results \<^verbatim>\<open>CreateBatch\<close> drains from the store when it holds a reference block.\<close>

definition drained_results :: "('g, 'f, 's) EncodingStreamer \<Rightarrow> ('g, 'f) EncodingResult list" where
  "drained_results e =
     fst (GetNewAndDeleteStaleEncodingResults (EncodedBlobstore e) (ReferenceBlockNumber e))"

text \<open>
  \<^verbatim>\<open>CreateBatch\<close>. \<open>ord\<close> is the order of the loop that turns the maps into slices,
  \<open>ord1\<close> and \<open>ord2\<close> are the orders of \<^verbatim>\<open>getBatchMetadata\<close>.
\<close>

definition CreateBatch ::
  "('g, 'f, 's, 'r, 't) streamer_env \<Rightarrow> nat list \<Rightarrow> nat list \<Rightarrow> nat list
    \<Rightarrow> ('g, 'f, 's) EncodingStreamer
    \<Rightarrow> (batcher_error + ('g, 'f, 's, 'r, 't) batch) \<times> ('g, 'f, 's) EncodingStreamer" where
  "CreateBatch env ord ord1 ord2 e0 =
     (let e = cancel_outstanding e0 in
      if ReferenceBlockNumber e = 0 then
        (case GetCurrentBlockNumber env of
           Inl er \<Rightarrow> (Inl errNoEncodedResults, e)
         | Inr blockNumber \<Rightarrow>
             (Inl errNoEncodedResults,
              e\<lparr>EncodedBlobstore :=
                  snd (GetNewAndDeleteStaleEncodingResults (EncodedBlobstore e) blockNumber)\<rparr>))
      else
        let (encodedResults, st) =
              GetNewAndDeleteStaleEncodingResults (EncodedBlobstore e) (ReferenceBlockNumber e);
            e1 = e\<lparr>EncodedBlobstore := st,
                   EncodedSizeNotifier := (EncodedSizeNotifier e)\<lparr>active := True\<rparr>\<rparr>
        in if length encodedResults = 0 then (Inl errNoEncodedResults, e1)
           else
             case build_tables encodedResults of
               Inl er \<Rightarrow> (Inl er, e1)
             | Inr t \<Rightarrow>
                 (let (encodedBlobs, blobHeaders, metadatas) = materialize ord t
                  in case getBatchMetadata env ord1 ord2 metadatas (ReferenceBlockNumber e1) of
                       Inl er \<Rightarrow> (Inl er, e1)
                     | Inr batchMetadata \<Rightarrow>
                         (case SetBatchRoot env blobHeaders of
                            Inl er \<Rightarrow> (Inl er, e1)
                          | Inr (batchRoot, tree) \<Rightarrow>
                              (Inr \<lparr>EncodedBlobs = encodedBlobs, BlobMetadata = metadatas,
                                    BlobHeaders = blobHeaders,
                                    BatchHeader = \<lparr>hdr_ReferenceBlockNumber = ReferenceBlockNumber e1,
                                                   BatchRoot = batchRoot\<rparr>,
                                    BatchMetadata = batchMetadata, MerkleTree = tree\<rparr>,
                               e1\<lparr>ReferenceBlockNumber := 0\<rparr>))))"

section \<open>The streamer's goroutines\<close>


text \<open>
  Between two calls of \<^verbatim>\<open>CreateBatch\<close> the two goroutines of \<^verbatim>\<open>Start\<close> run: the
  requester calls \<^verbatim>\<open>RequestEncoding\<close> at every tick, the ingester calls
  \<^verbatim>\<open>ProcessEncodedBlobs\<close> for every value received on \<^verbatim>\<open>encoderChan\<close>, one at a time.
  The notifier is read and written under its own lock, so for the notifier a run is a
  sequence of these calls. Each call comes with what its collaborators answer then.
\<close>

datatype ('g, 'f, 's, 'r, 't) streamer_call =
    Tick "('g, 'f, 's, 'r, 't) streamer_env" "nat list" "nat list"
  | Ingest "('g, 'f, 's, 'r, 't) streamer_env" "('g, 'f) EncodingResultOrStatus"

fun run_call ::
  "('g, 'f, 's) EncodingStreamer \<Rightarrow> ('g, 'f, 's, 'r, 't) streamer_call \<Rightarrow> ('g, 'f, 's) EncodingStreamer" where
  "run_call e (Tick env ord1 ord2) = snd (RequestEncoding env ord1 ord2 e)"
| "run_call e (Ingest env result) = snd (ProcessEncodedBlobs env e result)"

definition run_calls ::
  "('g, 'f, 's, 'r, 't) streamer_call list \<Rightarrow> ('g, 'f, 's) EncodingStreamer \<Rightarrow> ('g, 'f, 's) EncodingStreamer" where
  "run_calls calls e = foldl run_call e calls"

text \<open>
  The second loop of \<^verbatim>\<open>RequestEncodingForBlob\<close> next to the worker pool. The requester
  goes through \<open>c_pending\<close>; \<open>c_submitted\<close> holds the request whose job has been submitted
  and whose \<^verbatim>\<open>PutEncodingRequest\<close> is the requester's next statement. A worker of the pool
  may run any submitted job at any time after \<^verbatim>\<open>Pool.Submit\<close>; the job sends its value on
  the channel (\<open>c_chan\<close> holds the values sent and not yet processed), and the ingester
  goroutine of \<^verbatim>\<open>Start\<close> calls \<^verbatim>\<open>ProcessEncodedBlobs\<close> for each value it receives.
\<close>

record ('g, 'f, 's) pool_config =
  c_streamer :: "('g, 'f, 's) EncodingStreamer"
  c_pending :: "pendingRequestInfo list"
  c_submitted :: "pendingRequestInfo option"
  c_chan :: "('g, 'f) EncodingResultOrStatus list"
  c_finished :: "nat list"

inductive pool_step ::
  "('g, 'f, 's, 'r, 't) streamer_env \<Rightarrow> BlobMetadata \<Rightarrow> byte list option \<Rightarrow> 's batchMetadata \<Rightarrow> uint
    \<Rightarrow> ('g, 'f, 's) pool_config \<Rightarrow> ('g, 'f, 's) pool_config \<Rightarrow> bool"
  for env metadata blob batchMetadata referenceBlockNumber where
    requester_submits:
      "c_submitted c = None \<Longrightarrow> c_pending c = res # rest \<Longrightarrow>
       register_cancel (c_streamer c) = (ctx, e1) \<Longrightarrow>
       pool_step env metadata blob batchMetadata referenceBlockNumber c
         (c\<lparr>c_streamer :=
              pool_submit (make_job ctx metadata blob batchMetadata referenceBlockNumber res) e1,
            c_pending := rest, c_submitted := Some res\<rparr>)"
  | requester_registers:
      "c_submitted c = Some res \<Longrightarrow>
       pool_step env metadata blob batchMetadata referenceBlockNumber c
         (c\<lparr>c_streamer := put_request (GetBlobKey metadata) res (c_streamer c),
            c_submitted := None\<rparr>)"
  | worker_runs_job:
      "job \<in> set (Pool (c_streamer c)) \<Longrightarrow> job_ctx job \<notin> set (c_finished c) \<Longrightarrow>
       run_job env job = Some result \<Longrightarrow>
       pool_step env metadata blob batchMetadata referenceBlockNumber c
         (c\<lparr>c_chan := c_chan c @ [result], c_finished := job_ctx job # c_finished c\<rparr>)"
  | ingester_processes:
      "c_chan c = result # results \<Longrightarrow>
       pool_step env metadata blob batchMetadata referenceBlockNumber c
         (c\<lparr>c_streamer := snd (ProcessEncodedBlobs env (c_streamer c) result),
            c_chan := results\<rparr>)"


section \<open>Concrete instances\<close>

text \<open>
  A small encoder and a small streamer on which the theorems below are exercised:
  commitments, proofs and field elements are natural numbers, SHA-256 is replaced by
  the identity on byte strings, two operators hold one chunk each, a chunk length
  cannot be computed when the quorum threshold does not exceed the adversary
  threshold, and encoding parameters are invalid when chunk length times number of
  chunks exceeds \<open>SRSOrder\<close>.
\<close>

definition demo_env :: "(nat, nat, 64 word \<times> 64 word) encoder_env" where
  "demo_env = \<lparr>sha256 = map (\<lambda>b. char_of (unat b)),
     GetKzgEncoder = (\<lambda>n c. Inr (n, c)),
     EncodeBytes = (\<lambda>enc d. Inr (unat (fst enc), unat (snd enc), [\<lparr>Coeffs = [length d], Proof = unat (fst enc)\<rparr>])),
     ToFrArray_len = length\<rparr>"

definition demo_encoder :: "(nat, nat) Encoder" where
  "demo_encoder = \<lparr>CacheEncodedBlobs = True, Cache = []\<rparr>"

text \<open>The same encoder with a KZG encoder group that has no encoder for chunk lengths above 256.\<close>

definition demo_env_limited :: "(nat, nat, 64 word \<times> 64 word) encoder_env" where
  "demo_env_limited =
     demo_env\<lparr>GetKzgEncoder := (\<lambda>n c. if 256 < c then Inl EncoderUnavailable else Inr (n, c))\<rparr>"

definition demo_quorum :: "QuorumID \<Rightarrow> SecurityParam" where
  "demo_quorum q = \<lparr>QuorumID = q, AdversaryThreshold = 50, QuorumThreshold = 90, QuorumRate = 1\<rparr>"

definition demo_metadata :: "BlobKey \<Rightarrow> SecurityParam list \<Rightarrow> BlobMetadata" where
  "demo_metadata k qs = \<lparr>GetBlobKey = k, BlobSize = 64, SecurityParams = qs\<rparr>"

definition demo_assignments :: "(OperatorID \<times> Assignment) list" where
  "demo_assignments = [(0, \<lparr>StartIndex = 0, asg_NumChunks = 1\<rparr>), (1, \<lparr>StartIndex = 1, asg_NumChunks = 1\<rparr>)]"

definition demo_streamer_env :: "(nat, nat, nat, nat, nat) streamer_env" where
  "demo_streamer_env =
     \<lparr>GetCurrentBlockNumber = Inr 100,
      GetIndexedOperatorState = (\<lambda>blockNumber quorumIds. Inr (length quorumIds)),
      GetAssignments = (\<lambda>state quorumID quantizationFactor. Inr (demo_assignments, \<lparr>TotalChunks = 2\<rparr>)),
      GetMinimumChunkLength = (\<lambda>numOperators blobLength quantizationFactor quorumThreshold adversaryThreshold.
         if quorumThreshold \<le> adversaryThreshold then Inl (External ''invalid thresholds'')
         else Inr blobLength),
      GetBlobLength = (\<lambda>blobSize. (blobSize + 31) div 32),
      GetEncodingParams = (\<lambda>chunkLength totalChunks. Inr \<lparr>ChunkLength = chunkLength, NumChunks = totalChunks\<rparr>),
      ValidateEncodingParams = (\<lambda>params blobLength srsOrder.
         if srsOrder < int (unat (ChunkLength params) * unat (NumChunks params))
         then Some (External ''SRS order exceeded'') else None),
      EncodeBlob = (\<lambda>data params.
         Inr (\<lparr>Commitment = 7, LengthProof = 8, Length = length data\<rparr>,
              [\<lparr>Coeffs = [1], Proof = 1\<rparr>, \<lparr>Coeffs = [2], Proof = 2\<rparr>])),
      SetBatchRoot = (\<lambda>blobHeaders. Inr (length blobHeaders, length blobHeaders)),
      QuantizationFactor_const = 1,
      WaitingQueueSize = 0,
      GetBlobMetadataByStatus_fault = None,
      GetBlobsByMetadata_fault = None,
      chunkSize = (\<lambda>c. length (Coeffs c))\<rparr>"

definition demo_result :: "BlobMetadata \<Rightarrow> QuorumID \<Rightarrow> (nat, nat) EncodingResult" where
  "demo_result metadata q =
     \<lparr>res_BlobMetadata = metadata, res_ReferenceBlockNumber = 100,
      res_BlobQuorumInfo =
        \<lparr>QuorumID = q, AdversaryThreshold = 50, QuorumThreshold = 90, QuorumRate = 1,
         QuantizationFactor = 1, EncodedBlobLength = 4\<rparr>,
      res_Commitment = Some \<lparr>Commitment = 7, LengthProof = 8, Length = 2\<rparr>,
      res_Chunks = [\<lparr>Coeffs = [1], Proof = 1\<rparr>, \<lparr>Coeffs = [2], Proof = 2\<rparr>],
      res_Assignments = demo_assignments\<rparr>"

definition demo_streamer :: "(nat, nat, nat) EncodingStreamer" where
  "demo_streamer =
     \<lparr>SRSOrder = 1000, EncodingQueueLimit = 10,
      EncodedBlobstore = \<lparr>requested = {}, encoded = []\<rparr>,
      ReferenceBlockNumber = 100, Pool = [],
      EncodedSizeNotifier = \<lparr>Notify = 0, threshold = 3, active = True\<rparr>,
      blobStore = [], encodingCtxCancelFuncs = [], cancelled = []\<rparr>"

definition demo_results :: "(nat, nat) EncodingResult list" where
  "demo_results =
     [demo_result (demo_metadata ''a'' [demo_quorum 0, demo_quorum 1]) 0,
      demo_result (demo_metadata ''b'' [demo_quorum 0, demo_quorum 1]) 0,
      demo_result (demo_metadata ''a'' [demo_quorum 0, demo_quorum 1]) 1,
      demo_result (demo_metadata ''c'' [demo_quorum 0]) 0]"

definition demo_batching :: "(nat, nat, nat) EncodingStreamer" where
  "demo_batching = demo_streamer\<lparr>EncodedBlobstore := \<lparr>requested = {}, encoded = demo_results\<rparr>\<rparr>"

definition demo_quorumInfo :: QuorumInfo where
  "demo_quorumInfo =
     \<lparr>qi_Assignments = demo_assignments, qi_Info = \<lparr>TotalChunks = 2\<rparr>, qi_QuantizationFactor = 1\<rparr>"

definition demo_batchMetadata :: "nat batchMetadata" where
  "demo_batchMetadata = \<lparr>QuorumInfos = [(0, demo_quorumInfo), (1, demo_quorumInfo)], State = 2\<rparr>"






definition demo_a :: BlobMetadata where
  "demo_a = demo_metadata ''a'' [demo_quorum 0, demo_quorum 1]"


definition demo_pending :: pendingRequestInfo where
  "demo_pending =
     \<lparr>pend_BlobQuorumInfo =
        \<lparr>QuorumID = 0, AdversaryThreshold = 50, QuorumThreshold = 90, QuorumRate = 1,
         QuantizationFactor = 1, EncodedBlobLength = 4\<rparr>,
      pend_EncodingParams = \<lparr>ChunkLength = 2, NumChunks = 2\<rparr>\<rparr>"

definition demo_config :: "(nat, nat, nat) pool_config" where
  "demo_config =
     \<lparr>c_streamer = demo_streamer, c_pending = [demo_pending], c_submitted = None,
      c_chan = [], c_finished = []\<rparr>"

text \<open>An encoder client that fails at once, as it does when its context is done.\<close>

definition demo_failing_env :: "(nat, nat, nat, nat, nat) streamer_env" where
  "demo_failing_env = demo_streamer_env\<lparr>EncodeBlob := (\<lambda>data params. Inl (External ''context canceled''))\<rparr>"

text \<open>What an encode job sends on the channel for the blob \<open>metadata\<close> and the quorum \<open>q\<close>.\<close>

definition demo_encoded :: "BlobMetadata \<Rightarrow> QuorumID \<Rightarrow> (nat, nat) EncodingResultOrStatus" where
  "demo_encoded metadata q =
     \<lparr>res_BlobMetadata = metadata, res_ReferenceBlockNumber = 100,
      res_BlobQuorumInfo =
        \<lparr>QuorumID = q, AdversaryThreshold = 50, QuorumThreshold = 90, QuorumRate = 1,
         QuantizationFactor = 1, EncodedBlobLength = 4\<rparr>,
      res_Commitment = Some \<lparr>Commitment = 7, LengthProof = 8, Length = 2\<rparr>,
      res_Chunks = [\<lparr>Coeffs = [1], Proof = 1\<rparr>, \<lparr>Coeffs = [2], Proof = 2\<rparr>],
      res_Assignments = demo_assignments, Err = None\<rparr>"

definition demo_ingest :: "BlobKey \<Rightarrow> (nat, nat, nat, nat, nat) streamer_call" where
  "demo_ingest k = Ingest demo_streamer_env (demo_encoded (demo_metadata k [demo_quorum 0]) 0)"

section \<open>Invariant of the maps of CreateBatch\<close>

text \<open>
  What holds of the four maps after every round of the loop over the encoded results:
  \<^verbatim>\<open>metadataByKey\<close> and \<^verbatim>\<open>encodedBlobByKey\<close> have the same keys, a key without an
  encoded blob has no quorum infos, every metadata is stored under its own blob key,
  and no key occurs twice.
\<close>

abbreviation result_key :: "('g, 'f) EncodingResult \<Rightarrow> BlobKey" where
  "result_key r \<equiv> GetBlobKey (res_BlobMetadata r)"

definition tables_ok :: "('g, 'f) batch_tables \<Rightarrow> bool" where
  "tables_ok t \<longleftrightarrow>
     (\<forall>k. (map_of (metadataByKey t) k = None) = (map_of (encodedBlobByKey t) k = None)) \<and>
     (\<forall>k. map_of (encodedBlobByKey t) k = None \<longrightarrow> lookup_or [] (blobQuorums t) k = []) \<and>
     (\<forall>k m. (k, m) \<in> set (metadataByKey t) \<longrightarrow> GetBlobKey m = k) \<and>
     distinct (map fst (metadataByKey t))"






section \<open>Invariants of the requester and of the notifier\<close>


text \<open>
  The signals the notifier has sent, plus the one it may still send while it is active.
\<close>

definition signals_left :: "EncodedSizeNotifier \<Rightarrow> nat" where
  "signals_left n = Notify n + (if active n then 1 else 0)"

section \<open>Properties of the encoder cache\<close>

lemma unat_low_byte: "unat (ucast (a :: 64 word) :: 8 word) = unat a mod 256"
  by (simp add: unsigned_ucast_eq unsigned_take_bit_eq take_bit_eq_mod)

lemma ucast_low_byte:
  "(ucast (a :: 64 word) :: 8 word) = ucast (b :: 64 word) \<longleftrightarrow> unat a mod 256 = unat b mod 256"
  by (metis unat_low_byte word_unat_eq_iff)

lemma hashBlob_low_byte:
  "unat (ChunkLength p1) mod 256 = unat (ChunkLength p2) mod 256 \<Longrightarrow>
   unat (NumChunks p1) mod 256 = unat (NumChunks p2) mod 256 \<Longrightarrow>
   hashBlob env data p1 = hashBlob env data p2"
  by (simp add: hashBlob_def ucast_low_byte [symmetric])

lemma lru_get_after_add: "lru_get (lru_add c k v) k = (Some v, lru_add c k v)"
proof -
  have "filter (\<lambda>kv. fst kv \<noteq> k) (take n (filter (\<lambda>kv. fst kv \<noteq> k) c)) =
        take n (filter (\<lambda>kv. fst kv \<noteq> k) c)" for n
    by (rule filter_True) (auto dest: in_set_takeD)
  then show ?thesis
    by (simp add: lru_get_def lru_add_def lru_size_def)
qed

lemma lru_get_hit_again:
  "lru_get c k = (Some v, c') \<Longrightarrow> lru_get c' k = (Some v, c')"
  by (auto simp: lru_get_def split: option.splits)

lemma Encode_cached_after_success:
  assumes on: "CacheEncodedBlobs e"
    and first: "Encode env e data p1 = (Inr r, e1)"
  shows "CacheEncodedBlobs e1 \<and>
         (\<exists>v c'. lru_get (Cache e1) (hashBlob env data p1) = (Some v, c') \<and>
                  err v = None \<and> (commitments v, chunks v) = r)"
proof (cases "lru_get (Cache e) (hashBlob env data p1)")
  case (Pair hit c')
  show ?thesis
  proof (cases hit)
    case (Some v)
    with Pair on first
    have eq: "((case err v of None \<Rightarrow> Inr (commitments v, chunks v) | Some er \<Rightarrow> Inl er),
               e\<lparr>Cache := c'\<rparr>) = (Inr r, e1)"
      by (simp add: Encode_def)
    then have e1: "e1 = e\<lparr>Cache := c'\<rparr>" by simp
    from eq have ok: "err v = None" by (cases "err v") simp_all
    with eq have r: "(commitments v, chunks v) = r" by simp
    from Pair Some have "lru_get c' (hashBlob env data p1) = (Some v, c')"
      by (simp add: lru_get_hit_again)
    with e1 ok r on show ?thesis by simp
  next
    case None
    with Pair on first
    have unc: "Encode_uncached env (e\<lparr>Cache := c'\<rparr>) (hashBlob env data p1) data p1 = (Inr r, e1)"
      by (simp add: Encode_def)
    from unc obtain enc where enc: "GetKzgEncoder env (NumChunks p1) (ChunkLength p1) = Inr enc"
      by (cases "GetKzgEncoder env (NumChunks p1) (ChunkLength p1)")
         (simp_all add: Encode_uncached_def)
    from unc enc obtain commit lowDegreeProof kzgFrames where
      eb: "EncodeBytes env enc data = Inr (commit, lowDegreeProof, kzgFrames)"
      by (cases "EncodeBytes env enc data") (auto simp: Encode_uncached_def)
    define v where "v = \<lparr>commitments = \<lparr>Commitment = commit, LengthProof = lowDegreeProof,
                                   Length = ToFrArray_len env data\<rparr>,
        chunks = map (\<lambda>frame. \<lparr>Coeffs = Coeffs frame, Proof = Proof frame\<rparr>) kzgFrames,
        err = None\<rparr>"
    from unc enc eb on have r: "r = (commitments v, chunks v)"
      and e1: "e1 = e\<lparr>Cache := lru_add c' (hashBlob env data p1) v\<rparr>"
      by (simp_all add: Encode_uncached_def Let_def v_def)
    have "err v = None" by (simp add: v_def)
    with r e1 on show ?thesis
      by (simp add: lru_get_after_add)
  qed
qed

lemma low_byte_of_nat: "(ucast (a :: 64 word) :: 8 word) = of_nat (unat a mod 256)"
proof -
  have "unat (of_nat (unat a mod 256) :: 8 word) = unat a mod 256"
    by (simp add: unat_of_nat)
  then show ?thesis
    by (metis unat_low_byte word_unat_eq_iff)
qed

lemma hashBlob_low_bytes:
  "hashBlob env data params =
     sha256 env (data @ [of_nat (unat (ChunkLength params) mod 256),
                         of_nat (unat (NumChunks params) mod 256)])"
  by (simp only: hashBlob_def low_byte_of_nat)

lemma lru_get_map_of:
  "lru_get c k = (Some v, c') \<Longrightarrow> map_of c k = Some v"
  by (auto simp: lru_get_def split: option.splits)

lemma Encode_entry_after_success:
  assumes on: "CacheEncodedBlobs e"
    and first: "Encode env e data p1 = (Inr r, e1)"
  shows "map_of (Cache e1) (hashBlob env data p1) =
           Some \<lparr>commitments = fst r, chunks = snd r, err = None\<rparr>"
proof -
  from Encode_cached_after_success [OF on first] obtain v c' where
    hit: "lru_get (Cache e1) (hashBlob env data p1) = (Some v, c')" and
    ok: "err v = None" and r: "(commitments v, chunks v) = r"
    by blast
  from ok r have "v = \<lparr>commitments = fst r, chunks = snd r, err = None\<rparr>"
    by (cases v) auto
  with lru_get_map_of [OF hit] show ?thesis by simp
qed

lemma Encode_cache_hit:
  assumes on: "CacheEncodedBlobs e"
    and hit: "map_of (Cache e) (hashBlob env data params) = Some v"
  shows "fst (Encode env e data params) =
           (case err v of None \<Rightarrow> Inr (commitments v, chunks v) | Some er \<Rightarrow> Inl er)"
proof -
  have "lru_get (Cache e) (hashBlob env data params) =
          (Some v, (hashBlob env data params, v) #
                   filter (\<lambda>kv. fst kv \<noteq> hashBlob env data params) (Cache e))"
    unfolding lru_get_def hit by simp
  then show ?thesis
    unfolding Encode_def Let_def using on by simp
qed

text \<open>
  Claim C10, as amended. With \<^verbatim>\<open>CacheEncodedBlobs\<close> enabled, \<^verbatim>\<open>Encode\<close> keys its cache by
  SHA-256 over the blob bytes followed by the low-order byte of \<^verbatim>\<open>ChunkLength\<close> and the
  low-order byte of \<^verbatim>\<open>NumChunks\<close>, and a call that succeeds leaves its commitments and
  chunks in the cache under that key. So a later call with the same data and with
  parameters congruent modulo 256 to those of the first returns the first call's
  commitments and chunks, whatever the parameters are otherwise, provided the first
  call succeeded and its entry is still in the cache at the later call (\<open>e2\<close> is the
  encoder then).
\<close>

theorem Encode_cache_key_low_bytes:
  assumes on: "CacheEncodedBlobs e"
    and first: "Encode env e data p1 = (Inr r, e1)"
    and on2: "CacheEncodedBlobs e2"
    and kept: "map_of (Cache e2) (hashBlob env data p1) = map_of (Cache e1) (hashBlob env data p1)"
    and cl: "unat (ChunkLength p1) mod 256 = unat (ChunkLength p2) mod 256"
    and nc: "unat (NumChunks p1) mod 256 = unat (NumChunks p2) mod 256"
  shows "hashBlob env data p2 =
           sha256 env (data @ [of_nat (unat (ChunkLength p1) mod 256),
                               of_nat (unat (NumChunks p1) mod 256)]) \<and>
         map_of (Cache e1)
           (sha256 env (data @ [of_nat (unat (ChunkLength p1) mod 256),
                                of_nat (unat (NumChunks p1) mod 256)])) =
           Some \<lparr>commitments = fst r, chunks = snd r, err = None\<rparr> \<and>
         fst (Encode env e2 data p2) = Inr r"
proof -
  have k1: "hashBlob env data p1 =
           sha256 env (data @ [of_nat (unat (ChunkLength p1) mod 256),
                               of_nat (unat (NumChunks p1) mod 256)])"
    by (rule hashBlob_low_bytes)
  have k2: "hashBlob env data p2 = hashBlob env data p1"
    by (rule hashBlob_low_byte [symmetric, OF cl nc])
  have entry: "map_of (Cache e1) (hashBlob env data p1) =
           Some \<lparr>commitments = fst r, chunks = snd r, err = None\<rparr>"
    by (rule Encode_entry_after_success [OF on first])
  have "map_of (Cache e2) (hashBlob env data p2) =
           Some \<lparr>commitments = fst r, chunks = snd r, err = None\<rparr>"
    unfolding k2 kept by (rule entry)
  from Encode_cache_hit [OF on2 this] have "fst (Encode env e2 data p2) = Inr r"
    by simp
  moreover from k1 k2 have "hashBlob env data p2 =
           sha256 env (data @ [of_nat (unat (ChunkLength p1) mod 256),
                               of_nat (unat (NumChunks p1) mod 256)])"
    by (rule trans [rotated])
  moreover from entry have "map_of (Cache e1)
           (sha256 env (data @ [of_nat (unat (ChunkLength p1) mod 256),
                                of_nat (unat (NumChunks p1) mod 256)])) =
           Some \<lparr>commitments = fst r, chunks = snd r, err = None\<rparr>"
    unfolding k1 .
  ultimately show ?thesis by blast
qed

text \<open>
  On the small encoder: after a call for another blob, chunk length 257 and 258 chunks
  are answered from the entry cached for chunk length 1 and 2 chunks, although encoding
  with them gives another result.
\<close>

lemma demo_first:
  "Encode demo_env demo_encoder [1, 2, 3] \<lparr>ChunkLength = 1, NumChunks = 2\<rparr> =
    (Inr (\<lparr>Commitment = 2, LengthProof = 1, Length = 3\<rparr>, [\<lparr>Coeffs = [3], Proof = 2\<rparr>]),
     \<lparr>CacheEncodedBlobs = True,
        Cache = [(map (\<lambda>b. char_of (unat b)) [1, 2, 3, 1, 2 :: 8 word],
                 \<lparr>commitments = \<lparr>Commitment = 2, LengthProof = 1, Length = 3\<rparr>,
                  chunks = [\<lparr>Coeffs = [3], Proof = 2\<rparr>], err = None\<rparr>)]\<rparr>)"
  by (simp add: Encode_def Encode_uncached_def demo_env_def demo_encoder_def hashBlob_def lru_get_def lru_add_def lru_size_def Let_def)

lemma demo_second:
  "snd (Encode demo_env
         (snd (Encode demo_env demo_encoder [1, 2, 3] \<lparr>ChunkLength = 1, NumChunks = 2\<rparr>))
         [9] \<lparr>ChunkLength = 1, NumChunks = 2\<rparr>) =
     \<lparr>CacheEncodedBlobs = True,
        Cache = [(map (\<lambda>b. char_of (unat b)) [9, 1, 2 :: 8 word],
                 \<lparr>commitments = \<lparr>Commitment = 2, LengthProof = 1, Length = 1\<rparr>,
                  chunks = [\<lparr>Coeffs = [1], Proof = 2\<rparr>], err = None\<rparr>),
                 (map (\<lambda>b. char_of (unat b)) [1, 2, 3, 1, 2 :: 8 word],
                 \<lparr>commitments = \<lparr>Commitment = 2, LengthProof = 1, Length = 3\<rparr>,
                  chunks = [\<lparr>Coeffs = [3], Proof = 2\<rparr>], err = None\<rparr>)]\<rparr>"
  by (simp add: demo_first)
     (simp add: Encode_def Encode_uncached_def demo_env_def hashBlob_def lru_get_def lru_add_def lru_size_def Let_def)

theorem Encode_cache_key_low_bytes_witness:
  "fst (Encode demo_env
         (snd (Encode demo_env
                (snd (Encode demo_env demo_encoder [1, 2, 3] \<lparr>ChunkLength = 1, NumChunks = 2\<rparr>))
                [9] \<lparr>ChunkLength = 1, NumChunks = 2\<rparr>))
         [1, 2, 3] \<lparr>ChunkLength = 257, NumChunks = 258\<rparr>)
     = Inr (\<lparr>Commitment = 2, LengthProof = 1, Length = 3\<rparr>, [\<lparr>Coeffs = [3], Proof = 2\<rparr>]) \<and>
   hashBlob demo_env [1, 2, 3] \<lparr>ChunkLength = 257, NumChunks = 258\<rparr> =
     map (\<lambda>b. char_of (unat b)) [1, 2, 3, 1, 2 :: 8 word] \<and>
   fst (Encode_uncached demo_env demo_encoder [] [1, 2, 3] \<lparr>ChunkLength = 257, NumChunks = 258\<rparr>)
     = Inr (\<lparr>Commitment = 258, LengthProof = 257, Length = 3\<rparr>, [\<lparr>Coeffs = [3], Proof = 258\<rparr>])"
proof -
  have on: "CacheEncodedBlobs demo_encoder"
    by (simp add: demo_encoder_def)
  have on2: "CacheEncodedBlobs (snd (Encode demo_env
                (snd (Encode demo_env demo_encoder [1, 2, 3] \<lparr>ChunkLength = 1, NumChunks = 2\<rparr>))
                [9] \<lparr>ChunkLength = 1, NumChunks = 2\<rparr>))"
    by (simp add: demo_second)
  have kept: "map_of (Cache (snd (Encode demo_env
                (snd (Encode demo_env demo_encoder [1, 2, 3] \<lparr>ChunkLength = 1, NumChunks = 2\<rparr>))
                [9] \<lparr>ChunkLength = 1, NumChunks = 2\<rparr>)))
             (hashBlob demo_env [1, 2, 3] \<lparr>ChunkLength = 1, NumChunks = 2\<rparr>) =
        map_of (Cache (snd (Encode demo_env demo_encoder [1, 2, 3] \<lparr>ChunkLength = 1, NumChunks = 2\<rparr>)))
             (hashBlob demo_env [1, 2, 3] \<lparr>ChunkLength = 1, NumChunks = 2\<rparr>)"
  proof -
    have k: "hashBlob demo_env [1, 2, 3] \<lparr>ChunkLength = 1, NumChunks = 2\<rparr> =
        map (\<lambda>b. char_of (unat b)) [1, 2, 3, 1, 2 :: 8 word]"
      by (simp add: hashBlob_def demo_env_def)
    show ?thesis
      by (simp only: k demo_second) (simp add: demo_first)
  qed
  have cl: "unat (ChunkLength \<lparr>ChunkLength = 1, NumChunks = 2\<rparr>) mod 256 =
            unat (ChunkLength \<lparr>ChunkLength = 257, NumChunks = 258\<rparr>) mod 256"
    by simp
  have nc: "unat (NumChunks \<lparr>ChunkLength = 1, NumChunks = 2\<rparr>) mod 256 =
            unat (NumChunks \<lparr>ChunkLength = 257, NumChunks = 258\<rparr>) mod 256"
    by simp
  have unc: "fst (Encode_uncached demo_env demo_encoder [] [1, 2, 3] \<lparr>ChunkLength = 257, NumChunks = 258\<rparr>)
     = Inr (\<lparr>Commitment = 258, LengthProof = 257, Length = 3\<rparr>, [\<lparr>Coeffs = [3], Proof = 258\<rparr>])"
    by (simp add: Encode_uncached_def demo_env_def demo_encoder_def Let_def)
  have key: "sha256 demo_env ([1, 2, 3] @
       [of_nat (unat (ChunkLength \<lparr>ChunkLength = 1, NumChunks = 2\<rparr>) mod 256),
        of_nat (unat (NumChunks \<lparr>ChunkLength = 1, NumChunks = 2\<rparr>) mod 256)]) =
     map (\<lambda>b. char_of (unat b)) [1, 2, 3, 1, 2 :: 8 word]"
    by (simp add: demo_env_def)
  have first: "Encode demo_env demo_encoder [1, 2, 3] \<lparr>ChunkLength = 1, NumChunks = 2\<rparr> =
      (Inr (\<lparr>Commitment = 2, LengthProof = 1, Length = 3\<rparr>, [\<lparr>Coeffs = [3], Proof = 2\<rparr>]),
       snd (Encode demo_env demo_encoder [1, 2, 3] \<lparr>ChunkLength = 1, NumChunks = 2\<rparr>))"
    by (simp add: demo_first)
  from Encode_cache_key_low_bytes [OF on first on2 kept cl nc] unc
  show ?thesis
    unfolding key by blast
qed

text \<open>
  Claim C10 as stated fails for two calls of which the first one fails: the encoder
  group has no encoder for chunk length 257, the first call returns the error and
  caches nothing, and the second call, with parameters congruent modulo 256, encodes
  the blob itself.
\<close>

theorem Encode_failed_first_call_counterexample:
  "CacheEncodedBlobs demo_encoder \<and>
   unat (ChunkLength \<lparr>ChunkLength = 257, NumChunks = 258\<rparr>) mod 256 =
     unat (ChunkLength \<lparr>ChunkLength = 1, NumChunks = 2\<rparr>) mod 256 \<and>
   unat (NumChunks \<lparr>ChunkLength = 257, NumChunks = 258\<rparr>) mod 256 =
     unat (NumChunks \<lparr>ChunkLength = 1, NumChunks = 2\<rparr>) mod 256 \<and>
   fst (Encode demo_env_limited demo_encoder [1, 2, 3] \<lparr>ChunkLength = 257, NumChunks = 258\<rparr>)
     = Inl EncoderUnavailable \<and>
   Cache (snd (Encode demo_env_limited demo_encoder [1, 2, 3] \<lparr>ChunkLength = 257, NumChunks = 258\<rparr>))
     = [] \<and>
   fst (Encode demo_env_limited
         (snd (Encode demo_env_limited demo_encoder [1, 2, 3] \<lparr>ChunkLength = 257, NumChunks = 258\<rparr>))
         [1, 2, 3] \<lparr>ChunkLength = 1, NumChunks = 2\<rparr>)
   = Inr (\<lparr>Commitment = 2, LengthProof = 1, Length = 3\<rparr>, [\<lparr>Coeffs = [3], Proof = 2\<rparr>])"
  by (simp add: Encode_def Encode_uncached_def demo_env_limited_def demo_env_def demo_encoder_def
        hashBlob_def lru_get_def lru_add_def lru_size_def Let_def)

section \<open>Properties of CreateBatch\<close>

subsection \<open>Maps and iteration order\<close>

lemma map_of_assign: "map_of (assign k v m) = (map_of m)(k \<mapsto> v)"
  by (induction m) (auto simp: fun_eq_iff)

lemma map_fst_assign:
  "map fst (assign k v m) = (if k \<in> fst ` set m then map fst m else map fst m @ [k])"
  by (induction m) force+

lemma distinct_assign: "distinct (map fst m) \<Longrightarrow> distinct (map fst (assign k v m))"
  by (simp add: map_fst_assign)

lemma set_assign_subset: "set (assign k v m) \<subseteq> insert (k, v) (set m)"
  by (induction m) (auto split: if_splits)

lemma map_of_None_notin: "map_of m k = None \<Longrightarrow> (k, x) \<notin> set m"
  by (force simp: map_of_eq_None_iff)

lemma lookup_or_assign:
  "lookup_or z (assign k v m) k' = (if k' = k then v else lookup_or z m k')"
  by (simp add: lookup_or_def map_of_assign)

lemma range_order_mset: "mset (range_order seed xs) = mset xs"
proof (induction seed xs rule: range_order.induct)
  case (3 n seed v va)
  let ?xs = "v # va"
  let ?i = "n mod length ?xs"
  have i: "?i < length ?xs" by simp
  have "mset ?xs = mset (take ?i ?xs @ ?xs ! ?i # drop (Suc ?i) ?xs)"
    using id_take_nth_drop [OF i] by simp
  also have "\<dots> = mset (?xs ! ?i # (take ?i ?xs @ drop (Suc ?i) ?xs))"
    by simp
  finally show ?case using 3 by (simp add: Let_def)
qed simp_all


lemma tables_ok_empty: "tables_ok empty_tables"
  by (simp add: tables_ok_def empty_tables_def lookup_or_def)


lemma group_results_step:
  assumes ok: "tables_ok t"
  shows "tables_ok (store_result result eb hdr (init_blob result t))"
    and "map_of (metadataByKey (store_result result eb hdr (init_blob result t))) k =
           (case map_of (metadataByKey t) k of Some m \<Rightarrow> Some m
            | None \<Rightarrow> if result_key result = k then Some (res_BlobMetadata result) else None)"
    and "lookup_or [] (blobQuorums (store_result result eb hdr (init_blob result t))) k =
           lookup_or [] (blobQuorums t) k @ (if result_key result = k then [res_BlobQuorumInfo result] else [])"
proof -
  show "tables_ok (store_result result eb hdr (init_blob result t))"
    using ok set_assign_subset [of "result_key result" "res_BlobMetadata result" "metadataByKey t"]
    unfolding tables_ok_def store_result_def init_blob_def Let_def
    by (auto simp: map_of_assign lookup_or_assign distinct_assign
             dest: map_of_None_notin split: if_splits)
  show "map_of (metadataByKey (store_result result eb hdr (init_blob result t))) k =
           (case map_of (metadataByKey t) k of Some m \<Rightarrow> Some m
            | None \<Rightarrow> if result_key result = k then Some (res_BlobMetadata result) else None)"
    using ok unfolding tables_ok_def store_result_def init_blob_def Let_def
    by (auto simp: map_of_assign dest: map_of_None_notin split: option.splits)
  show "lookup_or [] (blobQuorums (store_result result eb hdr (init_blob result t))) k =
           lookup_or [] (blobQuorums t) k @ (if result_key result = k then [res_BlobQuorumInfo result] else [])"
    using ok unfolding tables_ok_def store_result_def init_blob_def Let_def
    by (auto simp: lookup_or_assign)
qed

lemma group_results_tables:
  assumes "group_results rs t = Inr t'" and "tables_ok t"
  shows "tables_ok t' \<and>
         map_of (metadataByKey t') k =
           (case map_of (metadataByKey t) k of Some m \<Rightarrow> Some m
            | None \<Rightarrow> map_option res_BlobMetadata (find (\<lambda>r. result_key r = k) rs)) \<and>
         lookup_or [] (blobQuorums t') k =
           lookup_or [] (blobQuorums t) k @
           map res_BlobQuorumInfo (filter (\<lambda>r. result_key r = k) rs)"
  using assms
proof (induction rs arbitrary: t)
  case Nil
  then show ?case by (simp split: option.splits)
next
  case (Cons result rest)
  from Cons.prems(1) obtain eb hdr where
    rest: "group_results rest (store_result result eb hdr (init_blob result t)) = Inr t'"
    by (auto simp: Let_def split: sum.splits)
  note step = group_results_step [OF Cons.prems(2), of result eb hdr]
  from Cons.IH [OF rest step(1)] step(2) [of k] step(3) [of k]
  show ?case
    by (auto split: option.splits)
qed

lemma quorums_complete_iff:
  "quorums_complete present ps \<longleftrightarrow> (\<forall>p \<in> set ps. QuorumID p \<in> set present)"
  by (induction ps) auto


lemma build_tables_entry:
  assumes bt: "build_tables rs = Inr t" and km: "(k, m) \<in> set (metadataByKey t)"
  shows "GetBlobKey m = k"
    and "map_option res_BlobMetadata (find (\<lambda>r. result_key r = k) rs) = Some m"
    and "\<forall>p \<in> set (SecurityParams m).
           QuorumID p \<in> set (map (\<lambda>r. QuorumID (res_BlobQuorumInfo r)) (filter (\<lambda>r. result_key r = k) rs))"
proof -
  from bt obtain t0 where g: "group_results rs empty_tables = Inr t0"
    and t: "t = drop_incomplete (populate_quorum_infos t0)"
    by (auto simp: build_tables_def split: sum.splits)
  note facts = group_results_tables [OF g tables_ok_empty, of k]
  from facts have ok: "tables_ok t0" by simp
  from km t have km0: "(k, m) \<in> set (metadataByKey t0)"
    and compl: "quorums_complete (map QuorumID (lookup_or [] (blobQuorums t0) k)) (SecurityParams m)"
    by (auto simp: drop_incomplete_def populate_quorum_infos_def)
  from ok km0 show "GetBlobKey m = k"
    by (auto simp: tables_ok_def)
  from ok km0 have "map_of (metadataByKey t0) k = Some m"
    by (simp add: tables_ok_def)
  with facts show "map_option res_BlobMetadata (find (\<lambda>r. result_key r = k) rs) = Some m"
    by (simp add: empty_tables_def)
  from facts have "lookup_or [] (blobQuorums t0) k =
      map res_BlobQuorumInfo (filter (\<lambda>r. result_key r = k) rs)"
    by (simp add: empty_tables_def lookup_or_def)
  with compl show "\<forall>p \<in> set (SecurityParams m).
           QuorumID p \<in> set (map (\<lambda>r. QuorumID (res_BlobQuorumInfo r)) (filter (\<lambda>r. result_key r = k) rs))"
    by (simp add: quorums_complete_iff comp_def)
qed

lemma drained_results_cancel [simp]:
  "drained_results (cancel_outstanding e) = drained_results e"
  by (simp add: drained_results_def cancel_outstanding_def)

lemma CreateBatch_materialized:
  assumes "CreateBatch env ord ord1 ord2 e = (Inr b, e')"
  shows "\<exists>t. build_tables (drained_results e) = Inr t \<and>
             (EncodedBlobs b, BlobHeaders b, BlobMetadata b) = materialize ord t"
proof -
  have "\<exists>t. build_tables (drained_results (cancel_outstanding e)) = Inr t \<and>
             (EncodedBlobs b, BlobHeaders b, BlobMetadata b) = materialize ord t"
    using assms
    apply (simp add: CreateBatch_def Let_def drained_results_def split: if_splits sum.splits prod.splits)
    apply (auto split: sum.splits prod.splits)
    done
  then show ?thesis by simp
qed

lemma materialize_aligned:
  assumes bt: "build_tables rs = Inr t"
    and mat: "(encodedBlobs, blobHeaders, metadatas) = materialize ord t"
  shows "encodedBlobs = map (\<lambda>m. lookup_or [] (encodedBlobByKey t) (GetBlobKey m)) metadatas"
    and "blobHeaders = map (\<lambda>m. map_of (blobHeaderByKey t) (GetBlobKey m)) metadatas"
    and "set metadatas = snd ` set (metadataByKey t)"
    and "mset (zip encodedBlobs (zip blobHeaders metadatas)) =
         image_mset (\<lambda>(k, m). (lookup_or [] (encodedBlobByKey t) k, map_of (blobHeaderByKey t) k, m))
           (mset (metadataByKey t))"
proof -
  define entries where "entries = range_order ord (metadataByKey t)"
  have ms: "mset entries = mset (metadataByKey t)"
    by (simp add: entries_def range_order_mset)
  then have "set entries = set (metadataByKey t)"
    by (metis set_mset_mset)
  then have key: "\<And>k m. (k, m) \<in> set entries \<Longrightarrow> GetBlobKey m = k"
    using build_tables_entry(1) [OF bt] by blast
  from mat have eb: "encodedBlobs = map (\<lambda>(key, m). lookup_or [] (encodedBlobByKey t) key) entries"
    and bh: "blobHeaders = map (\<lambda>(key, m). map_of (blobHeaderByKey t) key) entries"
    and md: "metadatas = map (\<lambda>(key, m). m) entries"
    by (simp_all add: materialize_def Let_def entries_def)
  show "encodedBlobs = map (\<lambda>m. lookup_or [] (encodedBlobByKey t) (GetBlobKey m)) metadatas"
    using key by (auto simp: eb md)
  show "blobHeaders = map (\<lambda>m. map_of (blobHeaderByKey t) (GetBlobKey m)) metadatas"
    using key by (auto simp: bh md)
  show "set metadatas = snd ` set (metadataByKey t)"
    using \<open>set entries = set (metadataByKey t)\<close> by (force simp: md)
  have "zip encodedBlobs (zip blobHeaders metadatas) =
        map (\<lambda>(k, m). (lookup_or [] (encodedBlobByKey t) k, map_of (blobHeaderByKey t) k, m)) entries"
    unfolding eb bh md by (induction entries) auto
  then show "mset (zip encodedBlobs (zip blobHeaders metadatas)) =
         image_mset (\<lambda>(k, m). (lookup_or [] (encodedBlobByKey t) k, map_of (blobHeaderByKey t) k, m))
           (mset (metadataByKey t))"
    using ms by simp
qed

theorem CreateBatch_excludes_incomplete_blob:
  assumes batch: "CreateBatch env ord ord1 ord2 e = (Inr b, e')"
    and first: "find (\<lambda>r. GetBlobKey (res_BlobMetadata r) = blobKey) (drained_results e) = Some r0"
    and requested: "quorum \<in> set (SecurityParams (res_BlobMetadata r0))"
    and missing: "QuorumID quorum \<notin>
        set (map (\<lambda>r. QuorumID (res_BlobQuorumInfo r))
              (filter (\<lambda>r. GetBlobKey (res_BlobMetadata r) = blobKey) (drained_results e)))"
  shows "\<exists>t. build_tables (drained_results e) = Inr t \<and>
           blobKey \<notin> set (map GetBlobKey (BlobMetadata b)) \<and>
           EncodedBlobs b = map (\<lambda>m. lookup_or [] (encodedBlobByKey t) (GetBlobKey m)) (BlobMetadata b) \<and>
           BlobHeaders b = map (\<lambda>m. map_of (blobHeaderByKey t) (GetBlobKey m)) (BlobMetadata b)"
proof -
  from CreateBatch_materialized [OF batch] obtain t where
    bt: "build_tables (drained_results e) = Inr t" and
    mat: "(EncodedBlobs b, BlobHeaders b, BlobMetadata b) = materialize ord t"
    by blast
  note al = materialize_aligned [OF bt mat]
  have "blobKey \<notin> set (map GetBlobKey (BlobMetadata b))"
  proof
    assume "blobKey \<in> set (map GetBlobKey (BlobMetadata b))"
    then obtain m where m: "m \<in> set (BlobMetadata b)" and k: "GetBlobKey m = blobKey"
      by auto
    from m al(3) obtain k' where km: "(k', m) \<in> set (metadataByKey t)"
      by auto
    from build_tables_entry(1) [OF bt km] k have k': "k' = blobKey" by simp
    from build_tables_entry(2) [OF bt km] first k' have "m = res_BlobMetadata r0"
      by simp
    with build_tables_entry(3) [OF bt km] requested k' missing show False
      by blast
  qed
  with bt al(1,2) show ?thesis by blast
qed

subsection \<open>The batch\<close>

lemma ReferenceBlockNumber_cancel_outstanding [simp]:
  "ReferenceBlockNumber (cancel_outstanding e) = ReferenceBlockNumber e"
  by (simp add: cancel_outstanding_def)

text \<open>
  Claim C9. Whenever \<^verbatim>\<open>CreateBatch\<close> does not return a batch (the sentinel for no encoded
  results, a failure of \<^verbatim>\<open>getBatchMetadata\<close> or of \<^verbatim>\<open>SetBatchRoot\<close>, or a panic while
  the bundles are filled), the streamer's \<^verbatim>\<open>ReferenceBlockNumber\<close> is what it was before
  the call.
\<close>

theorem CreateBatch_error_keeps_ReferenceBlockNumber:
  assumes "fst (CreateBatch env ord ord1 ord2 e) = Inl er"
  shows "ReferenceBlockNumber (snd (CreateBatch env ord ord1 ord2 e)) = ReferenceBlockNumber e"
  using assms
  by (auto simp: CreateBatch_def Let_def split: if_splits sum.splits prod.splits)

text \<open>
  Claim C5. Whenever \<^verbatim>\<open>CreateBatch\<close> returns a batch, the batch header carries the
  reference block number the streamer held when the call started, its batch root is the
  root that \<^verbatim>\<open>SetBatchRoot\<close> computes over the returned blob headers, and the streamer's
  \<^verbatim>\<open>ReferenceBlockNumber\<close> is 0 afterwards.
\<close>

theorem CreateBatch_header:
  assumes "CreateBatch env ord ord1 ord2 e = (Inr b, e')"
  shows "hdr_ReferenceBlockNumber (BatchHeader b) = ReferenceBlockNumber e \<and>
         SetBatchRoot env (BlobHeaders b) = Inr (BatchRoot (BatchHeader b), MerkleTree b) \<and>
         ReferenceBlockNumber e' = 0"
  using assms
  by (auto simp: CreateBatch_def Let_def split: if_splits sum.splits prod.splits)


lemma created_batch:
  "\<not> isl (fst (CreateBatch env ord ord1 ord2 e)) \<Longrightarrow>
   CreateBatch env ord ord1 ord2 e =
     (Inr (projr (fst (CreateBatch env ord ord1 ord2 e))), snd (CreateBatch env ord ord1 ord2 e))"
  by (cases "CreateBatch env ord ord1 ord2 e") (auto simp: isl_def)

lemma demo_batch_0: "\<not> isl (fst (CreateBatch demo_streamer_env [0] [] [] demo_batching))"
  by code_simp


theorem CreateBatch_header_witness:
  "hdr_ReferenceBlockNumber
     (BatchHeader (projr (fst (CreateBatch demo_streamer_env [0] [] [] demo_batching)))) = 100 \<and>
   BatchRoot (BatchHeader (projr (fst (CreateBatch demo_streamer_env [0] [] [] demo_batching)))) = 2 \<and>
   ReferenceBlockNumber (snd (CreateBatch demo_streamer_env [0] [] [] demo_batching)) = 0"
proof -
  have len: "length (BlobHeaders (projr (fst (CreateBatch demo_streamer_env [0] [] [] demo_batching)))) = 2"
    by code_simp
  have ref: "ReferenceBlockNumber demo_batching = 100"
    by (simp add: demo_batching_def demo_streamer_def)
  from CreateBatch_header [OF created_batch [OF demo_batch_0]] len ref show ?thesis
    by (simp add: demo_streamer_env_def)
qed

theorem CreateBatch_error_keeps_ReferenceBlockNumber_witness:
  "fst (CreateBatch demo_streamer_env [] [] [] demo_streamer) = Inl errNoEncodedResults \<and>
   ReferenceBlockNumber (snd (CreateBatch demo_streamer_env [] [] [] demo_streamer)) = 100"
proof -
  have er: "fst (CreateBatch demo_streamer_env [] [] [] demo_streamer) = Inl errNoEncodedResults"
    by code_simp
  have ref: "ReferenceBlockNumber demo_streamer = 100"
    by (simp add: demo_streamer_def)
  from CreateBatch_error_keeps_ReferenceBlockNumber [OF er] er ref show ?thesis
    by simp
qed

theorem CreateBatch_excludes_incomplete_blob_witness:
  "find (\<lambda>r. GetBlobKey (res_BlobMetadata r) = ''b'') (drained_results demo_batching)
     = Some (demo_result (demo_metadata ''b'' [demo_quorum 0, demo_quorum 1]) 0) \<and>
   ''b'' \<notin> set (map GetBlobKey
      (BlobMetadata (projr (fst (CreateBatch demo_streamer_env [0] [] [] demo_batching)))))"
proof -
  have first: "find (\<lambda>r. GetBlobKey (res_BlobMetadata r) = ''b'') (drained_results demo_batching)
     = Some (demo_result (demo_metadata ''b'' [demo_quorum 0, demo_quorum 1]) 0)"
    by code_simp
  have requested: "demo_quorum 1 \<in>
      set (SecurityParams (res_BlobMetadata (demo_result (demo_metadata ''b'' [demo_quorum 0, demo_quorum 1]) 0)))"
    by (simp add: demo_result_def demo_metadata_def)
  have missing: "QuorumID (demo_quorum 1) \<notin>
        set (map (\<lambda>r. QuorumID (res_BlobQuorumInfo r))
              (filter (\<lambda>r. GetBlobKey (res_BlobMetadata r) = ''b'') (drained_results demo_batching)))"
    by code_simp
  from CreateBatch_excludes_incomplete_blob
         [OF created_batch [OF demo_batch_0] first requested missing] first
  show ?thesis by blast
qed

subsection \<open>Alignment of the slices\<close>








lemma lookup_or_init_blob [simp]:
  "lookup_or [] (encodedBlobByKey (init_blob result t)) k = lookup_or [] (encodedBlobByKey t) k"
  by (simp add: init_blob_def Let_def lookup_or_assign) (simp add: lookup_or_def)

lemma blobHeaderByKey_init_blob [simp]:
  "blobHeaderByKey (init_blob result t) = blobHeaderByKey t"
  by (simp add: init_blob_def Let_def)










section \<open>Properties of RequestEncoding\<close>

subsection \<open>The loops of RequestEncodingForBlob\<close>

lemma validate_quorums_result:
  "validate_quorums env e metadata bm rb quorums pending =
     (if \<exists>quorum \<in> set quorums. validation_fails env e metadata bm rb quorum then None
      else Some (pending @ accepted_requests env e metadata bm rb quorums))"
proof (induction quorums arbitrary: pending)
  case Nil
  then show ?case by (simp add: accepted_requests_def List.map_filter_simps)
next
  case (Cons quorum rest)
  show ?case
    by (cases "check_quorum env e metadata bm rb quorum")
       (simp_all add: Cons.IH validation_fails_def accepted_requests_def List.map_filter_simps)
qed



lemma submit_request_frame:
  "encoded (EncodedBlobstore (submit_request metadata blob bm rb e res)) = encoded (EncodedBlobstore e)"
  "blobStore (submit_request metadata blob bm rb e res) = blobStore e"
  "ReferenceBlockNumber (submit_request metadata blob bm rb e res) = ReferenceBlockNumber e"
  "EncodedSizeNotifier (submit_request metadata blob bm rb e res) = EncodedSizeNotifier e"
  by (simp_all add: submit_request_def register_cancel_def pool_submit_def put_request_def
        PutEncodingRequest_def Let_def)



lemma foldl_submit_request_frame:
  "encoded (EncodedBlobstore (foldl (submit_request metadata blob bm rb) e pending)) =
     encoded (EncodedBlobstore e)"
  "blobStore (foldl (submit_request metadata blob bm rb) e pending) = blobStore e"
  "ReferenceBlockNumber (foldl (submit_request metadata blob bm rb) e pending) = ReferenceBlockNumber e"
  "EncodedSizeNotifier (foldl (submit_request metadata blob bm rb) e pending) = EncodedSizeNotifier e"
  by (induction pending arbitrary: e; simp add: submit_request_frame)+







lemma acquire_reference_block_Inr:
  assumes "acquire_reference_block env e = Inr (rb, e1)"
  shows "rb = ReferenceBlockNumber e1" and "EncodedBlobstore e1 = EncodedBlobstore e"
    and "Pool e1 = Pool e" and "blobStore e1 = blobStore e"
    and "EncodedSizeNotifier e1 = EncodedSizeNotifier e"
  using assms
  by (auto simp: acquire_reference_block_def split: if_splits sum.splits)

lemma RequestEncoding_shape:
  assumes run: "RequestEncoding env ord1 ord2 e = (r, e')"
  shows "\<exists>e1 ms blobs bm.
           EncodedBlobstore e1 = EncodedBlobstore e \<and> Pool e1 = Pool e \<and>
           EncodedSizeNotifier e1 = EncodedSizeNotifier e \<and>
           set ms \<subseteq> set (GetBlobMetadataByStatus (blobStore e) Processing) \<and>
           e' = request_blobs env e1 ms blobs bm (ReferenceBlockNumber e1)"
proof -
  have none: "\<exists>e1 ms blobs bm.
           EncodedBlobstore e1 = EncodedBlobstore e \<and> Pool e1 = Pool e \<and>
           EncodedSizeNotifier e1 = EncodedSizeNotifier e \<and>
           set ms \<subseteq> set (GetBlobMetadataByStatus (blobStore e) Processing) \<and>
           e' = request_blobs env e1 ms (blobs :: (BlobKey \<times> byte list) list) (bm :: 'c batchMetadata)
                  (ReferenceBlockNumber e1)"
    if "EncodedBlobstore e' = EncodedBlobstore e" "Pool e' = Pool e"
       "EncodedSizeNotifier e' = EncodedSizeNotifier e"
  proof (intro exI conjI)
    show "e' = request_blobs env e' [] [] undefined (ReferenceBlockNumber e')"
      by (simp add: request_blobs_def)
  qed (use that in simp_all)
  show ?thesis
  proof (cases "GetBlobMetadataByStatus_fault env")
    case (Some er)
    with run have "e' = e" by (simp add: RequestEncoding_def)
    then show ?thesis by (intro none) simp_all
  next
    case None
    let ?ms = "GetBlobMetadataByStatus (blobStore e) Processing"
    show ?thesis
    proof (cases "?ms = []")
      case True
      with run None have "e' = e" by (simp add: RequestEncoding_def)
      then show ?thesis by (intro none) simp_all
    next
      case nonempty: False
      show ?thesis
      proof (cases "acquire_reference_block env e")
        case (Inl er)
        with run None nonempty have "e' = e" by (simp add: RequestEncoding_def)
        then show ?thesis by (intro none) simp_all
      next
        case (Inr p)
        obtain rb e1 where p: "p = (rb, e1)" by (cases p)
        note acq = acquire_reference_block_Inr [OF Inr [unfolded p]]
        let ?ds = "dedupRequests e1 ?ms rb"
        from run None nonempty Inr p
        have ded: "request_deduped env ord1 ord2 e1 rb ?ds = (r, e')"
          by (simp add: RequestEncoding_def)
        let ?n = "min (EncodingQueueLimit e1 - WaitingQueueSize env) (int (length ?ds))"
        show ?thesis
        proof (cases "?ds = [] \<or> ?n \<le> 0")
          case True
          with ded have "e' = e1"
            unfolding request_deduped_def Let_def by (auto split: if_splits)
          with acq show ?thesis by (intro none) simp_all
        next
          case False
          let ?sel = "take (nat ?n) ?ds"
          from False ded have bat: "request_batch env ord1 ord2 e1 rb ?sel = (r, e')"
            unfolding request_deduped_def Let_def by (auto split: if_splits)
          have sub: "set ?sel \<subseteq> set ?ms"
            using set_take_subset [of "nat ?n" ?ds] by (auto simp: dedupRequests_def)
          show ?thesis
          proof (cases "getBatchMetadata env ord1 ord2 ?sel rb")
            case (Inl er)
            with bat have "e' = e1" by (simp add: request_batch_def)
            with acq show ?thesis by (intro none) simp_all
          next
            case bm: (Inr batchMetadata)
            show ?thesis
            proof (cases "GetBlobsByMetadata_fault env")
              case (Some er)
              with bat bm have "e' = e1" by (simp add: request_batch_def)
              with acq show ?thesis by (intro none) simp_all
            next
              case None
              with bat bm have "e' = request_blobs env e1 ?sel
                  (GetBlobsByMetadata (blobStore e1) ?sel) batchMetadata rb"
                by (simp add: request_batch_def)
              with acq sub show ?thesis by blast
            qed
          qed
        qed
      qed
    qed
  qed
qed


lemma RequestEncodingForBlob_result:
  "RequestEncodingForBlob env e metadata blob bm rb =
     (if \<exists>quorum \<in> set (SecurityParams metadata). validation_fails env e metadata bm rb quorum
      then e\<lparr>blobStore := MarkBlobFailed (blobStore e) (GetBlobKey metadata)\<rparr>
      else foldl (submit_request metadata blob bm rb) e
             (accepted_requests env e metadata bm rb (SecurityParams metadata)))"
  by (simp add: RequestEncodingForBlob_def validate_quorums_result)






subsection \<open>Invalid encoding parameters\<close>




subsection \<open>One job for a blob and a quorum\<close>





section \<open>Properties of the notifier\<close>

lemma RequestEncodingForBlob_notifier:
  "EncodedSizeNotifier (RequestEncodingForBlob env e metadata blob bm rb) = EncodedSizeNotifier e"
  by (simp add: RequestEncodingForBlob_result foldl_submit_request_frame)

lemma request_blobs_notifier:
  "EncodedSizeNotifier (request_blobs env e ms blobs bm rb) = EncodedSizeNotifier e"
  unfolding request_blobs_def
  by (induction ms arbitrary: e) (simp_all add: RequestEncodingForBlob_notifier)

lemma RequestEncoding_notifier:
  "EncodedSizeNotifier (snd (RequestEncoding env ord1 ord2 e)) = EncodedSizeNotifier e"
proof -
  obtain r e' where run: "RequestEncoding env ord1 ord2 e = (r, e')"
    by (cases "RequestEncoding env ord1 ord2 e")
  from RequestEncoding_shape [OF run] obtain e1 ms blobs bm where
    "EncodedSizeNotifier e1 = EncodedSizeNotifier e"
    "e' = request_blobs env e1 ms blobs bm (ReferenceBlockNumber e1)"
    by blast
  then show ?thesis
    by (simp add: run request_blobs_notifier)
qed

lemma ProcessEncodedBlobs_notifier:
  "EncodedSizeNotifier (snd (ProcessEncodedBlobs env e result)) = EncodedSizeNotifier e \<or>
   EncodedSizeNotifier (snd (ProcessEncodedBlobs env e result)) = notify_if_active (EncodedSizeNotifier e)"
  by (simp add: ProcessEncodedBlobs_def PutEncodingResult_def Let_def split: option.splits)


lemma notify_if_active_signals:
  "signals_left (notify_if_active n) = signals_left n"
  "Notify n \<le> Notify (notify_if_active n)"
  by (simp_all add: notify_if_active_def signals_left_def)

lemma run_call_signals:
  "signals_left (EncodedSizeNotifier (run_call e call)) = signals_left (EncodedSizeNotifier e) \<and>
   Notify (EncodedSizeNotifier e) \<le> Notify (EncodedSizeNotifier (run_call e call))"
proof (cases call)
  case (Tick env ord1 ord2)
  then show ?thesis by (simp add: RequestEncoding_notifier)
next
  case (Ingest env result)
  with ProcessEncodedBlobs_notifier [of env e result] show ?thesis
    by (auto simp: notify_if_active_signals)
qed

lemma run_calls_signals:
  "signals_left (EncodedSizeNotifier (run_calls calls e)) = signals_left (EncodedSizeNotifier e) \<and>
   Notify (EncodedSizeNotifier e) \<le> Notify (EncodedSizeNotifier (run_calls calls e))"
  unfolding run_calls_def
proof (induction calls arbitrary: e)
  case Nil
  show ?case by simp
next
  case (Cons call calls)
  from Cons.IH [of "run_call e call"] run_call_signals [of e call] show ?case
    by simp
qed

lemma CreateBatch_notifier:
  "Notify (EncodedSizeNotifier (snd (CreateBatch env ord ord1 ord2 e))) = Notify (EncodedSizeNotifier e)"
  "active (EncodedSizeNotifier (snd (CreateBatch env ord ord1 ord2 e))) =
     (if ReferenceBlockNumber e = 0 then active (EncodedSizeNotifier e) else True)"
  by (auto simp: CreateBatch_def cancel_outstanding_def Let_def
           split: if_splits sum.splits prod.splits)

lemma ProcessEncodedBlobs_signal:
  "EncodedSizeNotifier (snd (ProcessEncodedBlobs env e result)) =
     (if Err result = None \<and> 0 < threshold (EncodedSizeNotifier e) \<and>
         threshold (EncodedSizeNotifier e) \<le>
           GetEncodedResultSize (chunkSize env)
             (projr (PutEncodingResult (EncodedBlobstore e) (EncodingResult.truncate result))) \<and>
         active (EncodedSizeNotifier e)
      then (EncodedSizeNotifier e)\<lparr>Notify := Suc (Notify (EncodedSizeNotifier e)), active := False\<rparr>
      else EncodedSizeNotifier e)"
  by (auto simp: ProcessEncodedBlobs_def PutEncodingResult_def Let_def notify_if_active_def
           split: option.splits)

text \<open>
  Claim C4. In a run of the requester and the ingester without a call of
  \<^verbatim>\<open>CreateBatch\<close> the notifier sends at most one signal and never becomes active again:
  the signals sent plus the one an active notifier may still send stay the same.
  \<^verbatim>\<open>ProcessEncodedBlobs\<close> sends a signal exactly when the result was stored, the
  threshold is positive and reached, and the notifier is active, and it deactivates the
  notifier with the signal; \<^verbatim>\<open>RequestEncoding\<close> leaves the notifier alone;
  \<^verbatim>\<open>CreateBatch\<close> sends nothing and activates the notifier when it holds a reference
  block.
\<close>

theorem notifier_one_signal_per_batch_cycle:
  "Notify (EncodedSizeNotifier (run_calls calls e)) \<le> Suc (Notify (EncodedSizeNotifier e)) \<and>
   Notify (EncodedSizeNotifier e) \<le> Notify (EncodedSizeNotifier (run_calls calls e)) \<and>
   Notify (EncodedSizeNotifier (run_calls calls e)) +
     (if active (EncodedSizeNotifier (run_calls calls e)) then 1 else 0) =
   Notify (EncodedSizeNotifier e) + (if active (EncodedSizeNotifier e) then 1 else 0) \<and>
   EncodedSizeNotifier (snd (ProcessEncodedBlobs env e result)) =
     (if Err result = None \<and> 0 < threshold (EncodedSizeNotifier e) \<and>
         threshold (EncodedSizeNotifier e) \<le>
           GetEncodedResultSize (chunkSize env)
             (projr (PutEncodingResult (EncodedBlobstore e) (EncodingResult.truncate result))) \<and>
         active (EncodedSizeNotifier e)
      then (EncodedSizeNotifier e)\<lparr>Notify := Suc (Notify (EncodedSizeNotifier e)), active := False\<rparr>
      else EncodedSizeNotifier e) \<and>
   EncodedSizeNotifier (snd (RequestEncoding env ord1 ord2 e)) = EncodedSizeNotifier e \<and>
   Notify (EncodedSizeNotifier (snd (CreateBatch env ord ord1' ord2' e))) = Notify (EncodedSizeNotifier e) \<and>
   active (EncodedSizeNotifier (snd (CreateBatch env ord ord1' ord2' e))) =
     (if ReferenceBlockNumber e = 0 then active (EncodedSizeNotifier e) else True)"
proof -
  from run_calls_signals [of calls e]
  have pot: "Notify (EncodedSizeNotifier (run_calls calls e)) +
     (if active (EncodedSizeNotifier (run_calls calls e)) then 1 else 0) =
   Notify (EncodedSizeNotifier e) + (if active (EncodedSizeNotifier e) then 1 else 0)"
    and mono: "Notify (EncodedSizeNotifier e) \<le> Notify (EncodedSizeNotifier (run_calls calls e))"
    by (simp_all add: signals_left_def)
  from pot have "Notify (EncodedSizeNotifier (run_calls calls e)) \<le> Suc (Notify (EncodedSizeNotifier e))"
    by (simp split: if_splits)
  with pot mono ProcessEncodedBlobs_signal [of env e result] RequestEncoding_notifier [of env ord1 ord2 e]
    CreateBatch_notifier [of env ord ord1' ord2' e]
  show ?thesis
    by (intro conjI)
qed

text \<open>
  On the small streamer (threshold 3, two chunks of size 1 in every result): the first
  result stays under the threshold, the second one crosses it and is signalled, the
  third one is not signalled; after \<^verbatim>\<open>CreateBatch\<close> the next result is signalled again.
\<close>

theorem notifier_one_signal_per_batch_cycle_witness:
  "Notify (EncodedSizeNotifier (run_calls [demo_ingest ''p''] demo_streamer)) = 0 \<and>
   Notify (EncodedSizeNotifier (run_calls [demo_ingest ''p'', demo_ingest ''q''] demo_streamer)) = 1 \<and>
   Notify (EncodedSizeNotifier
     (run_calls [demo_ingest ''p'', demo_ingest ''q'', demo_ingest ''r''] demo_streamer)) = 1 \<and>
   Notify (EncodedSizeNotifier
     (run_calls [demo_ingest ''s'']
        (snd (CreateBatch demo_streamer_env [] [] []
               (run_calls [demo_ingest ''p'', demo_ingest ''q'', demo_ingest ''r''] demo_streamer))))) = 2 \<and>
   Notify (EncodedSizeNotifier
     (run_calls [demo_ingest ''p'', demo_ingest ''q'', demo_ingest ''r''] demo_streamer))
     \<le> Suc (Notify (EncodedSizeNotifier demo_streamer))"
proof -
  have 1: "Notify (EncodedSizeNotifier (run_calls [demo_ingest ''p''] demo_streamer)) = 0"
    by code_simp
  have 2: "Notify (EncodedSizeNotifier (run_calls [demo_ingest ''p'', demo_ingest ''q''] demo_streamer)) = 1"
    by code_simp
  have 3: "Notify (EncodedSizeNotifier
     (run_calls [demo_ingest ''p'', demo_ingest ''q'', demo_ingest ''r''] demo_streamer)) = 1"
    by code_simp
  have 4: "Notify (EncodedSizeNotifier
     (run_calls [demo_ingest ''s'']
        (snd (CreateBatch demo_streamer_env [] [] []
               (run_calls [demo_ingest ''p'', demo_ingest ''q'', demo_ingest ''r''] demo_streamer))))) = 2"
    by code_simp
  from notifier_one_signal_per_batch_cycle
         [of "[demo_ingest ''p'', demo_ingest ''q'', demo_ingest ''r'']" demo_streamer]
  have 5: "Notify (EncodedSizeNotifier
     (run_calls [demo_ingest ''p'', demo_ingest ''q'', demo_ingest ''r''] demo_streamer))
     \<le> Suc (Notify (EncodedSizeNotifier demo_streamer))"
    by blast
  from 1 2 3 4 5 show ?thesis by (intro conjI)
qed

section \<open>Registration of a request and completion of its job\<close>

text \<open>
  The requester's two steps for one request, taken alone, are one round of the second
  loop of \<^verbatim>\<open>RequestEncodingForBlob\<close>.
\<close>

lemma requester_steps_submit_request:
  assumes "c_submitted c = None" and "c_pending c = res # rest"
  shows "\<exists>c'. (pool_step env metadata blob bm rb)\<^sup>*\<^sup>* c c' \<and>
              c_streamer c' = submit_request metadata blob bm rb (c_streamer c) res \<and>
              c_pending c' = rest \<and> c_submitted c' = None"
proof -
  obtain ctx e1 where rc: "register_cancel (c_streamer c) = (ctx, e1)"
    by (cases "register_cancel (c_streamer c)")
  let ?c1 = "c\<lparr>c_streamer := pool_submit (make_job ctx metadata blob bm rb res) e1,
               c_pending := rest, c_submitted := Some res\<rparr>"
  let ?c2 = "?c1\<lparr>c_streamer := put_request (GetBlobKey metadata) res (c_streamer ?c1),
                c_submitted := None\<rparr>"
  have "pool_step env metadata blob bm rb c ?c1"
    using assms rc by (rule requester_submits)
  moreover have "pool_step env metadata blob bm rb ?c1 ?c2"
    by (rule requester_registers) simp
  ultimately have "(pool_step env metadata blob bm rb)\<^sup>*\<^sup>* c ?c2" by auto
  moreover have "c_streamer ?c2 = submit_request metadata blob bm rb (c_streamer c) res"
    by (simp add: submit_request_def rc)
  ultimately show ?thesis by (intro exI [of _ ?c2]) simp
qed

text \<open>
  Claim C3 does not hold of the code. \<^verbatim>\<open>RequestEncodingForBlob\<close> submits the job to the
  pool before it calls \<^verbatim>\<open>PutEncodingRequest\<close>, so a worker may run the job in between.
  With an encoder client that fails at once: the job has sent its value while the
  request of blob \<open>a\<close> for quorum 0 is not registered (\<open>c2\<close>); the ingester then deletes
  a request that is not there, the requester registers it, and the request stays
  registered although its only job is finished and processed (\<open>c4\<close>).
\<close>

theorem job_completes_before_registration:
  "\<exists>c2 c4.
     (pool_step demo_failing_env demo_a (Some [1, 2, 3]) demo_batchMetadata 100)\<^sup>*\<^sup>* demo_config c2 \<and>
     map Err (c_chan c2) = [Some (External ''context canceled'')] \<and>
     c_finished c2 = [0] \<and>
     c_submitted c2 = Some demo_pending \<and>
     \<not> HasEncodingRequested (EncodedBlobstore (c_streamer c2)) ''a'' 0 100 \<and>
     (pool_step demo_failing_env demo_a (Some [1, 2, 3]) demo_batchMetadata 100)\<^sup>*\<^sup>* c2 c4 \<and>
     c_pending c4 = [] \<and> c_submitted c4 = None \<and> c_chan c4 = [] \<and>
     map job_ctx (Pool (c_streamer c4)) = [0] \<and> c_finished c4 = [0] \<and>
     HasEncodingRequested (EncodedBlobstore (c_streamer c4)) ''a'' 0 100"
proof -
  let ?step = "pool_step demo_failing_env demo_a (Some [1, 2, 3]) demo_batchMetadata 100"
  define job where "job = make_job 0 demo_a (Some [1, 2, 3]) demo_batchMetadata 100 demo_pending"
  define e1 where "e1 = snd (register_cancel demo_streamer)"
  define result where "result = the (run_job demo_failing_env job)"
  define c1 where "c1 = demo_config\<lparr>c_streamer := pool_submit job e1, c_pending := [],
                                    c_submitted := Some demo_pending\<rparr>"
  define c2 where "c2 = c1\<lparr>c_chan := c_chan c1 @ [result], c_finished := job_ctx job # c_finished c1\<rparr>"
  define c3 where "c3 = c2\<lparr>c_streamer := snd (ProcessEncodedBlobs demo_failing_env (c_streamer c2) result),
                            c_chan := []\<rparr>"
  define c4 where "c4 = c3\<lparr>c_streamer := put_request (GetBlobKey demo_a) demo_pending (c_streamer c3),
                            c_submitted := None\<rparr>"
  have s1: "?step demo_config c1"
  proof -
    have "c_submitted demo_config = None" "c_pending demo_config = demo_pending # []"
      by (simp_all add: demo_config_def)
    moreover have "register_cancel (c_streamer demo_config) = (0, e1)"
      by (simp add: e1_def demo_config_def register_cancel_def demo_streamer_def Let_def)
    ultimately show ?thesis
      unfolding c1_def job_def by (rule requester_submits)
  qed
  have s2: "?step c1 c2"
  proof -
    have "job \<in> set (Pool (c_streamer c1))"
      by (simp add: c1_def pool_submit_def)
    moreover have "job_ctx job \<notin> set (c_finished c1)"
      by (simp add: c1_def demo_config_def)
    moreover have "run_job demo_failing_env job = Some result"
      by (simp add: result_def job_def run_job_def make_job_def demo_failing_env_def)
    ultimately show ?thesis
      unfolding c2_def by (rule worker_runs_job)
  qed
  have s3: "?step c2 c3"
  proof -
    have "c_chan c2 = result # []"
      by (simp add: c2_def c1_def demo_config_def)
    then show ?thesis
      unfolding c3_def by (rule ingester_processes)
  qed
  have s4: "?step c3 c4"
  proof -
    have "c_submitted c3 = Some demo_pending"
      by (simp add: c3_def c2_def c1_def)
    then show ?thesis
      unfolding c4_def by (rule requester_registers)
  qed
  have er: "Err result = Some (External ''context canceled'')"
    by (simp add: result_def job_def run_job_def make_job_def demo_failing_env_def)
  have st1: "EncodedBlobstore (c_streamer c2) = \<lparr>requested = {}, encoded = []\<rparr>"
    by (simp add: c2_def c1_def pool_submit_def e1_def register_cancel_def demo_streamer_def Let_def)
  have a: "(?step)\<^sup>*\<^sup>* demo_config c2"
    using s1 s2 by auto
  have b: "map Err (c_chan c2) = [Some (External ''context canceled'')]"
    by (simp add: c2_def c1_def demo_config_def er)
  have c: "c_finished c2 = [0]"
    by (simp add: c2_def c1_def demo_config_def job_def make_job_def)
  have d: "c_submitted c2 = Some demo_pending"
    by (simp add: c2_def c1_def)
  have e: "\<not> HasEncodingRequested (EncodedBlobstore (c_streamer c2)) ''a'' 0 100"
    unfolding st1 by (simp add: HasEncodingRequested_def)
  have f: "(?step)\<^sup>*\<^sup>* c2 c4"
    using s3 s4 by auto
  have g: "c_pending c4 = []" "c_submitted c4 = None" "c_chan c4 = []" "c_finished c4 = [0]"
    by (simp_all add: c4_def c3_def c)
       (simp add: c2_def c1_def)
  have pool: "Pool (c_streamer c4) = [job]"
    by (simp add: c4_def c3_def put_request_def ProcessEncodedBlobs_def er c2_def c1_def
          pool_submit_def e1_def register_cancel_def demo_streamer_def Let_def)
  then have h: "map job_ctx (Pool (c_streamer c4)) = [0]"
    by (simp add: job_def make_job_def)
  have i: "HasEncodingRequested (EncodedBlobstore (c_streamer c4)) ''a'' 0 100"
    by (simp add: c4_def put_request_def PutEncodingRequest_def HasEncodingRequested_def
          demo_a_def demo_metadata_def demo_pending_def)
  from a b c d e f g(1,2,3) h g(4) i show ?thesis
    by (intro exI [of _ c2] exI [of _ c4] conjI)
qed

end
